theory Spec2Isabelle
  imports Complex_Main "HOL-Library.Word"
begin

section \<open>Python values\<close>

text \<open>
  The five Lambda handlers of the repository receive a JSON-decoded event and talk to
  three stores: the DynamoDB metadata table, the DynamoDB counters table and the S3
  bucket. A Python \<open>str\<close> is a list of code points; \<open>bytes\<close> is a list of octets.
  A JSON-decoded object is a \<open>pyval\<close>; a \<open>dict\<close> is an association list read with
  \<open>map_of\<close> (the keys of a Python dict are unique). A \<open>float\<close> is the real number it
  stands for, an infinity or a NaN. In an item read from DynamoDB a number
  (\<open>PInt\<close> or \<open>PFloat\<close>) is a \<open>Decimal\<close>.
\<close>

type_synonym pystr = "nat list"
type_synonym bytes = "8 word list"

definition lit :: "string \<Rightarrow> pystr" where
  "lit s = map of_char s"

definition ch :: "char \<Rightarrow> nat" where
  "ch c = of_char c"

datatype pyfloat = Finite real | PosInf | NegInf | NaN

datatype pyval =
    PNone
  | PBool bool
  | PInt int
  | PFloat pyfloat
  | PStr pystr
  | PList "pyval list"
  | PDict "(pystr \<times> pyval) list"

type_synonym item = "(pystr \<times> pyval) list"

datatype py_error =
    AttributeError
  | TypeError
  | ValueError
  | OverflowError
  | KeyError
  | UnicodeEncodeError
  | BinasciiError
  | JSONDecodeError
  | RecursionError
  | ClientError
  | ParamValidationError

text \<open>Truth value of an object, as \<open>if x:\<close>, \<open>x or y\<close> and \<open>not x\<close> test it.\<close>

fun truthy :: "pyval \<Rightarrow> bool" where
  "truthy PNone = False"
| "truthy (PBool b) = b"
| "truthy (PInt n) = (n \<noteq> 0)"
| "truthy (PFloat x) = (x \<noteq> Finite 0)"
| "truthy (PStr s) = (s \<noteq> [])"
| "truthy (PList xs) = (xs \<noteq> [])"
| "truthy (PDict kvs) = (kvs \<noteq> [])"

fun is_dict :: "pyval \<Rightarrow> bool" where
  "is_dict (PDict _) = True"
| "is_dict _ = False"

fun is_str :: "pyval \<Rightarrow> bool" where
  "is_str (PStr _) = True"
| "is_str _ = False"

text \<open>Whether a \<open>float\<close>, or a number at all, occurs in an object.\<close>

fun has_float :: "pyval \<Rightarrow> bool" where
  "has_float (PFloat _) = True"
| "has_float (PList xs) = list_ex has_float xs"
| "has_float (PDict kvs) = list_ex (\<lambda>(k, v). has_float v) kvs"
| "has_float _ = False"

fun has_number :: "pyval \<Rightarrow> bool" where
  "has_number (PInt _) = True"
| "has_number (PFloat _) = True"
| "has_number (PList xs) = list_ex has_number xs"
| "has_number (PDict kvs) = list_ex (\<lambda>(k, v). has_number v) kvs"
| "has_number _ = False"

text \<open>\<open>d.get(k, default)\<close> on a dict.\<close>

definition dict_get :: "item \<Rightarrow> pystr \<Rightarrow> pyval \<Rightarrow> pyval" where
  "dict_get d k dflt = (case map_of d k of Some v \<Rightarrow> v | None \<Rightarrow> dflt)"

text \<open>
  \<open>x.get(k, default)\<close> on any object: every JSON value other than a dict has no
  attribute \<open>get\<close>.
\<close>

fun py_get :: "pyval \<Rightarrow> pystr \<Rightarrow> pyval \<Rightarrow> py_error + pyval" where
  "py_get (PDict d) k dflt = Inr (dict_get d k dflt)"
| "py_get _ k dflt = Inl AttributeError"

subsection \<open>\<open>str.encode('utf-8')\<close>\<close>

text \<open>
  One code point to its UTF-8 octets. A surrogate (\<open>U+D800..U+DFFF\<close>, which
  \<open>json.loads\<close> can produce) is not encodable. Python has no code point from
  \<open>0x110000\<close> on; the last branch is never reached from a \<open>str\<close>.
\<close>

definition utf8_char :: "nat \<Rightarrow> py_error + bytes" where
  "utf8_char c =
     (if c < 0x80 then Inr [of_nat c]
      else if c < 0x800 then Inr [of_nat (0xC0 + c div 64), of_nat (0x80 + c mod 64)]
      else if 0xD800 \<le> c \<and> c \<le> 0xDFFF then Inl UnicodeEncodeError
      else if c < 0x10000 then
        Inr [of_nat (0xE0 + c div 4096), of_nat (0x80 + (c div 64) mod 64),
             of_nat (0x80 + c mod 64)]
      else if c < 0x110000 then
        Inr [of_nat (0xF0 + c div 262144), of_nat (0x80 + (c div 4096) mod 64),
             of_nat (0x80 + (c div 64) mod 64), of_nat (0x80 + c mod 64)]
      else Inl ValueError)"

fun utf8_encode :: "pystr \<Rightarrow> py_error + bytes" where
  "utf8_encode [] = Inr []"
| "utf8_encode (c # cs) =
     (case utf8_char c of
        Inl e \<Rightarrow> Inl e
      | Inr bs \<Rightarrow> (case utf8_encode cs of Inl e \<Rightarrow> Inl e | Inr rest \<Rightarrow> Inr (bs @ rest)))"

text \<open>\<open>body.encode('utf-8')\<close>: only a \<open>str\<close> has the method.\<close>

fun py_encode_utf8 :: "pyval \<Rightarrow> py_error + bytes" where
  "py_encode_utf8 (PStr s) = utf8_encode s"
| "py_encode_utf8 _ = Inl AttributeError"

section \<open>The platform\<close>

text \<open>
  Library functions the handlers call and whose code is not part of the repository are
  parameters of the model: \<open>hashlib.sha256(b).hexdigest()\<close>, \<open>base64.b64decode\<close>,
  \<open>str(e)\<close> of an exception, \<open>str(x)\<close> of a non-string inside an f-string,
  \<open>s3.generate_presigned_url('get_object', ...)\<close> with its bucket, key and
  \<open>ExpiresIn\<close>, \<open>int(s)\<close> of a \<open>str\<close>, \<open>json.loads\<close> and \<open>unquote_plus\<close>.
\<close>

record platform =
  sha256_hexdigest :: "bytes \<Rightarrow> pystr"
  b64decode :: "pyval \<Rightarrow> py_error + bytes"
  exc_str :: "py_error \<Rightarrow> pystr"
  py_repr :: "pyval \<Rightarrow> pystr"
  generate_presigned_url :: "pystr \<Rightarrow> pyval \<Rightarrow> int \<Rightarrow> py_error + pystr"
  int_of_str :: "pystr \<Rightarrow> py_error + int"
  json_loads :: "pystr \<Rightarrow> py_error + pyval"
  unquote_plus :: "pystr \<Rightarrow> pystr"

text \<open>The values one invocation draws from \<open>uuid.uuid4()\<close> and \<open>datetime.utcnow()\<close>.\<close>

record ambient =
  uuid_for_name :: pystr
  uuid_for_id :: pystr
  utcnow_isoformat :: pystr

text \<open>\<open>f"{x}"\<close>: a \<open>str\<close> is inserted as it is, anything else through \<open>str(x)\<close>.\<close>

definition fmt :: "platform \<Rightarrow> pyval \<Rightarrow> pystr" where
  "fmt plat v = (case v of PStr s \<Rightarrow> s | _ \<Rightarrow> py_repr plat v)"

section \<open>Library functions\<close>

text \<open>
  The builtins and standard-library functions that are modelled in full: \<open>str\<close> of an
  \<open>int\<close>, \<open>int\<close> of an object that is not a \<open>str\<close>, \<open>json.dumps\<close> and \<open>quote_plus\<close>.
  Characters are written by their code.
\<close>

subsection \<open>\<open>str(n)\<close> and \<open>int(x)\<close>\<close>

fun digits_of :: "nat \<Rightarrow> pystr" where
  "digits_of n = (if n < 10 then [48 + n] else digits_of (n div 10) @ [48 + n mod 10])"

declare digits_of.simps [simp del]

definition str_int :: "int \<Rightarrow> pystr" where
  "str_int i = (if i < 0 then ch CHR ''-'' # digits_of (nat (- i)) else digits_of (nat i))"

text \<open>
  \<open>int(x)\<close>: a \<open>float\<close> (and a \<open>Decimal\<close>) is truncated towards zero, an infinity raises
  \<open>OverflowError\<close> and a NaN \<open>ValueError\<close>; \<open>None\<close>, a list and a dict raise \<open>TypeError\<close>.
\<close>

definition trunc_toward_zero :: "real \<Rightarrow> int" where
  "trunc_toward_zero x = (if x < 0 then \<lceil>x\<rceil> else \<lfloor>x\<rfloor>)"

fun py_int :: "platform \<Rightarrow> pyval \<Rightarrow> py_error + int" where
  "py_int plat (PInt n) = Inr n"
| "py_int plat (PBool b) = Inr (if b then 1 else 0)"
| "py_int plat (PFloat (Finite x)) = Inr (trunc_toward_zero x)"
| "py_int plat (PFloat NaN) = Inl ValueError"
| "py_int plat (PFloat _) = Inl OverflowError"
| "py_int plat (PStr s) = int_of_str plat s"
| "py_int plat _ = Inl TypeError"

subsection \<open>\<open>json.dumps\<close>\<close>

definition hex_lower :: "nat \<Rightarrow> nat" where
  "hex_lower d = (if d < 10 then 48 + d else 87 + d)"

definition hex_upper :: "nat \<Rightarrow> nat" where
  "hex_upper d = (if d < 10 then 48 + d else 55 + d)"

definition u_escape :: "nat \<Rightarrow> pystr" where
  "u_escape n =
     [ch CHR 0x5C, ch CHR ''u'', hex_lower (n div 4096), hex_lower (n div 256 mod 16),
      hex_lower (n div 16 mod 16), hex_lower (n mod 16)]"

definition json_escape_char :: "nat \<Rightarrow> pystr" where
  "json_escape_char c =
     (if c = ch CHR 0x22 then [ch CHR 0x5C, ch CHR 0x22]
      else if c = ch CHR 0x5C then [ch CHR 0x5C, ch CHR 0x5C]
      else if c = 10 then [ch CHR 0x5C, ch CHR ''n'']
      else if c = 13 then [ch CHR 0x5C, ch CHR ''r'']
      else if c = 9 then [ch CHR 0x5C, ch CHR ''t'']
      else if c = 8 then [ch CHR 0x5C, ch CHR ''b'']
      else if c = 12 then [ch CHR 0x5C, ch CHR ''f'']
      else if 32 \<le> c \<and> c \<le> 126 then [c]
      else if c < 0x10000 then u_escape c
      else u_escape (0xD800 + (c - 0x10000) div 1024 mod 1024)
             @ u_escape (0xDC00 + (c - 0x10000) mod 1024))"

definition json_string :: "pystr \<Rightarrow> pystr" where
  "json_string s = ch CHR 0x22 # concat (map json_escape_char s) @ [ch CHR 0x22]"

fun join :: "pystr \<Rightarrow> pystr list \<Rightarrow> pystr" where
  "join sep [] = []"
| "join sep [x] = x"
| "join sep (x # y # ys) = x @ sep @ join sep (y # ys)"

text \<open>
  \<open>json.dumps(obj)\<close> with the default separators and \<open>ensure_ascii\<close>; a finite
  \<open>float\<close> is written as \<open>float.__repr__\<close> writes it.
\<close>

fun json_dumps :: "platform \<Rightarrow> pyval \<Rightarrow> pystr" where
  "json_dumps plat PNone = lit ''null''"
| "json_dumps plat (PBool b) = (if b then lit ''true'' else lit ''false'')"
| "json_dumps plat (PInt n) = str_int n"
| "json_dumps plat (PFloat (Finite x)) = py_repr plat (PFloat (Finite x))"
| "json_dumps plat (PFloat PosInf) = lit ''Infinity''"
| "json_dumps plat (PFloat NegInf) = lit ''-Infinity''"
| "json_dumps plat (PFloat NaN) = lit ''NaN''"
| "json_dumps plat (PStr s) = json_string s"
| "json_dumps plat (PList xs) =
     lit ''['' @ join (lit '', '') (map (json_dumps plat) xs) @ lit '']''"
| "json_dumps plat (PDict kvs) =
     lit ''{'' @ join (lit '', '')
                  (map (\<lambda>(k, v). json_string k @ lit '': '' @ json_dumps plat v) kvs) @ lit ''}''"

subsection \<open>\<open>urllib.parse.quote_plus\<close>\<close>

definition is_unreserved :: "nat \<Rightarrow> bool" where
  "is_unreserved c =
     ((48 \<le> c \<and> c \<le> 57) \<or> (65 \<le> c \<and> c \<le> 90) \<or> (97 \<le> c \<and> c \<le> 122)
      \<or> c = ch CHR ''_'' \<or> c = ch CHR ''.'' \<or> c = ch CHR ''-'' \<or> c = ch CHR ''~'')"

definition quote_byte :: "8 word \<Rightarrow> pystr" where
  "quote_byte b =
     (let n = unat b
      in if is_unreserved n then [n]
         else if n = 32 then [ch CHR ''+'']
         else [ch CHR ''%'', hex_upper (n div 16), hex_upper (n mod 16)])"

definition quote_plus :: "pystr \<Rightarrow> py_error + pystr" where
  "quote_plus s =
     (case utf8_encode s of Inl e \<Rightarrow> Inl e | Inr bs \<Rightarrow> Inr (concat (map quote_byte bs)))"

section \<open>The stores\<close>

text \<open>
  The metadata table has one primary-key attribute (\<open>table_key\<close>, of string type),
  its items in the store's scan order, and the number of items one \<open>Scan\<close> call
  evaluates at most (DynamoDB ends a page at 1 MB). The counters table holds the single
  item \<open>deduplication_stats\<close>; each of its two attributes may be missing. The bucket maps
  a key to the stored body and content type. \<open>calls\<close> is the sequence of store requests
  issued so far, failed ones included.
\<close>

record counter_item =
  duplicates_avoided :: "int option"
  total_s3_size_saved :: "int option"

datatype call =
    CallGetItem pystr pyval
  | CallScan "int option" "pyval option" "(pystr \<times> pyval) option"
  | CallUpdateItem int
  | CallPutObject pystr bytes pyval
  | CallPutItem item
  | CallGetCounters

record world =
  table_key :: pystr
  table_rows :: "item list"
  table_page :: nat
  counters :: "counter_item option"
  blobs :: "pystr \<rightharpoonup> bytes \<times> pyval"
  calls :: "call list"

text \<open>
  A store request can fail for reasons outside the program (throttling, connectivity,
  missing credentials, a limit of the store): \<open>flt k\<close> says that the request of kind
  \<open>k\<close> of this invocation raises.
\<close>

datatype op_kind =
    OpGetItem | OpScan | OpUpdateItem | OpPutObject | OpPutItem | OpGetCounters

type_synonym faults = "op_kind \<Rightarrow> bool"

definition record_call :: "call \<Rightarrow> world \<Rightarrow> world" where
  "record_call c w = w\<lparr>calls := calls w @ [c]\<rparr>"

text \<open>The value of a key attribute is a string that is not empty.\<close>

definition is_key_value :: "pyval \<Rightarrow> bool" where
  "is_key_value v = (case v of PStr s \<Rightarrow> s \<noteq> [] | _ \<Rightarrow> False)"

text \<open>
  \<open>Table.get_item(Key={attr: v})\<close>: the SDK refuses to serialise a \<open>float\<close>;
  DynamoDB rejects a key that is not the table's primary key (the upload handler's own
  fallback expects this) or whose value is not a string or is the empty string.
\<close>

definition ddb_get_item ::
  "faults \<Rightarrow> world \<Rightarrow> pystr \<Rightarrow> pyval \<Rightarrow> (py_error + item option) \<times> world" where
  "ddb_get_item flt w attr v =
     (let w' = record_call (CallGetItem attr v) w in
      if has_float v then (Inl TypeError, w')
      else if flt OpGetItem \<or> attr \<noteq> table_key w \<or> \<not> is_key_value v
      then (Inl ClientError, w')
      else (Inr (find (\<lambda>r. map_of r attr = Some v) (table_rows w)), w'))"

record scan_result =
  scan_items :: "item list"
  LastEvaluatedKey :: "item option"

definition row_key :: "world \<Rightarrow> item \<Rightarrow> pyval" where
  "row_key w r = dict_get r (table_key w) PNone"

text \<open>
  What the SDK refuses before a scan request is sent: a \<open>float\<close> inside the
  \<open>ExclusiveStartKey\<close> dict, a \<open>Limit\<close> below 1, an \<open>ExclusiveStartKey\<close> that is
  not a dict.
\<close>

definition scan_request_error :: "int option \<Rightarrow> pyval option \<Rightarrow> py_error option" where
  "scan_request_error limit start =
     (if (case start of Some v \<Rightarrow> is_dict v \<and> has_float v | None \<Rightarrow> False)
      then Some TypeError
      else if (case limit of Some l \<Rightarrow> l < 1 | None \<Rightarrow> False)
      then Some ParamValidationError
      else if (case start of Some v \<Rightarrow> \<not> is_dict v | None \<Rightarrow> False)
      then Some ParamValidationError
      else None)"

text \<open>
  Where a scan resumes: at the first row, or after the row whose key is the
  \<open>ExclusiveStartKey\<close>, which has to be a dict of exactly the primary key.
\<close>

definition scan_from :: "world \<Rightarrow> pyval option \<Rightarrow> py_error + item list" where
  "scan_from w start =
     (case start of
        None \<Rightarrow> Inr (table_rows w)
      | Some (PDict [(k, PStr v)]) \<Rightarrow>
          if k = table_key w \<and> v \<noteq> []
          then Inr (tl (dropWhile (\<lambda>r. row_key w r \<noteq> PStr v) (table_rows w)))
          else Inl ClientError
      | Some _ \<Rightarrow> Inl ClientError)"

definition matches :: "(pystr \<times> pyval) option \<Rightarrow> item \<Rightarrow> bool" where
  "matches filt r = (case filt of None \<Rightarrow> True | Some (a, v) \<Rightarrow> map_of r a = Some v)"

text \<open>
  \<open>Table.scan(Limit=..., ExclusiveStartKey=..., FilterExpression=...)\<close>, one call, one
  page: at most \<open>Limit\<close> rows and at most \<open>table_page\<close> rows are evaluated, the filter
  is applied to the evaluated rows, and \<open>LastEvaluatedKey\<close> is the key of the last
  evaluated row when the page bound ended the call.
\<close>

definition ddb_scan ::
  "faults \<Rightarrow> world \<Rightarrow> int option \<Rightarrow> pyval option \<Rightarrow> (pystr \<times> pyval) option
     \<Rightarrow> (py_error + scan_result) \<times> world" where
  "ddb_scan flt w limit start filt =
     (let w' = record_call (CallScan limit start filt) w in
      case scan_request_error limit start of
        Some e \<Rightarrow> (Inl e, w')
      | None \<Rightarrow>
          if flt OpScan then (Inl ClientError, w')
          else (case scan_from w start of
                  Inl e \<Rightarrow> (Inl e, w')
                | Inr rest \<Rightarrow>
                    (let n = (case limit of Some l \<Rightarrow> min (nat l) (table_page w)
                                          | None \<Rightarrow> table_page w);
                         page = take n rest
                     in (Inr \<lparr>scan_items = filter (matches filt) page,
                              LastEvaluatedKey =
                                (if n \<le> length rest \<and> page \<noteq> []
                                 then Some [(table_key w, row_key w (last page))]
                                 else None)\<rparr>, w'))))"

text \<open>
  \<open>Table.put_item(Item=...)\<close>: unconditional; the item replaces the row with the same
  primary key, or is added. The SDK refuses to serialise a \<open>float\<close>; DynamoDB refuses
  an item whose primary key is missing, not a string or the empty string.
\<close>

fun replace_row :: "pystr \<Rightarrow> item \<Rightarrow> item list \<Rightarrow> item list" where
  "replace_row k it [] = [it]"
| "replace_row k it (r # rs) =
     (if map_of r k = map_of it k then it # rs else r # replace_row k it rs)"

definition ddb_put_item :: "faults \<Rightarrow> world \<Rightarrow> item \<Rightarrow> (py_error + unit) \<times> world" where
  "ddb_put_item flt w it =
     (let w' = record_call (CallPutItem it) w in
      if has_float (PDict it) then (Inl TypeError, w')
      else if flt OpPutItem \<or> \<not> is_key_value (dict_get it (table_key w) PNone)
      then (Inl ClientError, w')
      else (Inr (), w'\<lparr>table_rows := replace_row (table_key w) it (table_rows w)\<rparr>))"

text \<open>
  The update of the upload handler:
  \<open>SET duplicates_avoided = if_not_exists(duplicates_avoided, :zero) + :inc,
  total_s3_size_saved = if_not_exists(total_s3_size_saved, :zero) + :file_size\<close>
  with \<open>:inc = 1\<close> and \<open>:zero = 0\<close>; the item is created when it is missing.
\<close>

definition if_not_exists :: "int option \<Rightarrow> int \<Rightarrow> int" where
  "if_not_exists a zero = (case a of Some n \<Rightarrow> n | None \<Rightarrow> zero)"

definition ddb_update_counters :: "faults \<Rightarrow> world \<Rightarrow> int \<Rightarrow> (py_error + unit) \<times> world" where
  "ddb_update_counters flt w file_size =
     (let w' = record_call (CallUpdateItem file_size) w in
      if flt OpUpdateItem then (Inl ClientError, w')
      else
        (let old = (case counters w of
                      Some c \<Rightarrow> c
                    | None \<Rightarrow> \<lparr>duplicates_avoided = None, total_s3_size_saved = None\<rparr>)
         in (Inr (), w'\<lparr>counters := Some
               \<lparr>duplicates_avoided = Some (if_not_exists (duplicates_avoided old) 0 + 1),
                total_s3_size_saved =
                  Some (if_not_exists (total_s3_size_saved old) 0 + file_size)\<rparr>\<rparr>)))"

text \<open>
  \<open>s3.put_object(Bucket, Key, Body, ContentType, ServerSideEncryption)\<close>: the SDK
  refuses a \<open>ContentType\<close> that is not a string.
\<close>

definition s3_put_object ::
  "faults \<Rightarrow> world \<Rightarrow> pystr \<Rightarrow> bytes \<Rightarrow> pyval \<Rightarrow> (py_error + unit) \<times> world" where
  "s3_put_object flt w key body ctype =
     (let w' = record_call (CallPutObject key body ctype) w in
      if \<not> is_str ctype then (Inl ParamValidationError, w')
      else if flt OpPutObject then (Inl ClientError, w')
      else (Inr (), w'\<lparr>blobs := (blobs w)(key \<mapsto> (body, ctype))\<rparr>))"

text \<open>
  \<open>Table.get_item(Key={'counter_id': 'deduplication_stats'})\<close> on the counters table,
  read as \<open>resp.get('Item', {})\<close>.
\<close>

definition ddb_get_counters ::
  "faults \<Rightarrow> world \<Rightarrow> (py_error + counter_item option) \<times> world" where
  "ddb_get_counters flt w =
     (let w' = record_call CallGetCounters w in
      if flt OpGetCounters then (Inl ClientError, w') else (Inr (counters w), w'))"

section \<open>Responses\<close>

text \<open>
  A handler returns a dict with \<open>statusCode\<close>, optional \<open>headers\<close> and \<open>body\<close>. The
  body is kept as the object given to \<open>json.dumps\<close>. A handler that lets an exception
  escape has the outcome \<open>Raised\<close>.
\<close>

record response =
  statusCode :: nat
  headers :: "(pystr \<times> pystr) list option"
  body :: pyval

datatype outcome = Returned response | Raised py_error

definition json_headers :: "(pystr \<times> pystr) list option" where
  "json_headers = Some [(lit ''Content-Type'', lit ''application/json'')]"

definition reply :: "nat \<Rightarrow> pyval \<Rightarrow> outcome" where
  "reply code b = Returned \<lparr>statusCode = code, headers = json_headers, body = b\<rparr>"

definition error_body :: "pystr \<Rightarrow> pyval" where
  "error_body msg = PDict [(lit ''error'', PStr msg)]"

definition status_of :: "outcome \<Rightarrow> nat option" where
  "status_of out = (case out of Returned r \<Rightarrow> Some (statusCode r) | Raised _ \<Rightarrow> None)"

section \<open>upload\_file\<close>

text \<open>Lines 69 to 75: the payload bytes from \<open>body\<close> and \<open>isBase64Encoded\<close>.\<close>

definition decode_body :: "platform \<Rightarrow> item \<Rightarrow> py_error + bytes" where
  "decode_body plat event =
     (let body = dict_get event (lit ''body'') PNone;
          is_base64_encoded = dict_get event (lit ''isBase64Encoded'') (PBool False)
      in if truthy is_base64_encoded then b64decode plat body else py_encode_utf8 body)"

text \<open>
  Lines 93 to 103: \<open>get_item\<close> by hash, and on any exception a scan filtered on the
  hash, of which the first item counts. An exception of the scan is not caught here.
\<close>

definition check_duplicate ::
  "faults \<Rightarrow> world \<Rightarrow> pystr \<Rightarrow> (py_error + item option) \<times> world" where
  "check_duplicate flt w file_hash =
     (case ddb_get_item flt w (lit ''hash'') (PStr file_hash) of
        (Inr existing_item, w1) \<Rightarrow> (Inr existing_item, w1)
      | (Inl _, w1) \<Rightarrow>
          (case ddb_scan flt w1 None None (Some (lit ''hash'', PStr file_hash)) of
             (Inl e, w2) \<Rightarrow> (Inl e, w2)
           | (Inr res, w2) \<Rightarrow>
               (Inr (case scan_items res of [] \<Rightarrow> None | x # _ \<Rightarrow> Some x), w2)))"

text \<open>
  Lines 106 to 127: the counters are incremented, a failure of the increment is only
  logged, and the existing item is returned with status 409.
\<close>

definition duplicate_found ::
  "faults \<Rightarrow> world \<Rightarrow> item \<Rightarrow> int \<Rightarrow> outcome \<times> world" where
  "duplicate_found flt w existing_item file_size =
     (case ddb_update_counters flt w file_size of
        (_, w1) \<Rightarrow> (reply 409 (PDict existing_item), w1))"

text \<open>
  Lines 129 to 178: the object is put under \<open>files/<hash>/<filename>\<close>, then the
  metadata item is put; either failure returns status 500.
\<close>

definition store_new ::
  "platform \<Rightarrow> pystr \<Rightarrow> ambient \<Rightarrow> faults \<Rightarrow> world \<Rightarrow> bytes \<Rightarrow> pyval \<Rightarrow> pyval \<Rightarrow> pystr
     \<Rightarrow> outcome \<times> world" where
  "store_new plat S3_BUCKET amb flt w file_bytes filename content_type file_hash =
     (let s3_key = lit ''files/'' @ file_hash @ lit ''/'' @ fmt plat filename in
      case s3_put_object flt w s3_key file_bytes content_type of
        (Inl e, w1) \<Rightarrow>
          (reply 500 (error_body (lit ''Failed to upload to S3: '' @ exc_str plat e)), w1)
      | (Inr _, w1) \<Rightarrow>
          (let file_id = uuid_for_id amb;
               created_at = utcnow_isoformat amb;
               s3_url = lit ''https://'' @ S3_BUCKET @ lit ''.s3.amazonaws.com/'' @ s3_key;
               metadata =
                 [(lit ''file_id'', PStr file_id),
                  (lit ''name'', filename),
                  (lit ''size'', PInt (int (length file_bytes))),
                  (lit ''type'', content_type),
                  (lit ''hash'', PStr file_hash),
                  (lit ''created_at'', PStr created_at),
                  (lit ''s3_key'', PStr s3_key),
                  (lit ''download_url'', PStr s3_url)]
           in case ddb_put_item flt w1 metadata of
                (Inl e, w2) \<Rightarrow>
                  (reply 500
                     (error_body (lit ''Failed to save metadata: '' @ exc_str plat e)), w2)
              | (Inr _, w2) \<Rightarrow> (reply 201 (PDict metadata), w2)))"

text \<open>
  The handler. \<open>'body' not in event\<close> and \<open>event['headers']\<close> are tested on the dict;
  the only exception that reaches the outer \<open>except\<close> is the one of the fallback scan.
\<close>

definition upload_file_lambda_handler ::
  "platform \<Rightarrow> pystr \<Rightarrow> ambient \<Rightarrow> faults \<Rightarrow> world \<Rightarrow> pyval \<Rightarrow> outcome \<times> world" where
  "upload_file_lambda_handler plat S3_BUCKET amb flt w event =
     (case event of
        PDict ev \<Rightarrow>
          (if map_of ev (lit ''body'') = None
           then (reply 400 (error_body (lit ''No file content provided'')), w)
           else
             (case map_of ev (lit ''headers'') of
                Some (PDict hdrs) \<Rightarrow>
                  (case decode_body plat ev of
                     Inl e \<Rightarrow>
                       (reply 400
                          (PDict [(lit ''error'', PStr (lit ''Failed to decode file content'')),
                                  (lit ''details'', PStr (exc_str plat e))]), w)
                   | Inr file_bytes \<Rightarrow>
                       (let filename =
                              (let v = dict_get hdrs (lit ''filename'') PNone
                               in if truthy v then v
                                  else PStr (uuid_for_name amb @ lit ''.bin''));
                            content_type =
                              dict_get hdrs (lit ''content-type'')
                                (PStr (lit ''application/octet-stream''));
                            file_size = int (length file_bytes);
                            file_hash = sha256_hexdigest plat file_bytes
                        in case check_duplicate flt w file_hash of
                             (Inl e, w1) \<Rightarrow>
                               (reply 500
                                  (PDict [(lit ''error'', PStr (lit ''Internal server error'')),
                                          (lit ''details'', PStr (exc_str plat e))]), w1)
                           | (Inr existing_item, w1) \<Rightarrow>
                               (case existing_item of
                                  Some it \<Rightarrow>
                                    if truthy (PDict it)
                                    then duplicate_found flt w1 it file_size
                                    else store_new plat S3_BUCKET amb flt w1 file_bytes
                                           filename content_type file_hash
                                | None \<Rightarrow>
                                    store_new plat S3_BUCKET amb flt w1 file_bytes
                                      filename content_type file_hash)))
              | _ \<Rightarrow> (reply 400 (error_body (lit ''Missing or invalid headers'')), w)))
      | _ \<Rightarrow> (reply 400 (error_body (lit ''Invalid event structure'')), w))"

section \<open>get\_metadata\<close>

text \<open>
  The whole body is inside \<open>try\<close>; every exception gives status 500 with the fixed
  message.
\<close>

definition get_metadata_lambda_handler ::
  "faults \<Rightarrow> world \<Rightarrow> pyval \<Rightarrow> outcome \<times> world" where
  "get_metadata_lambda_handler flt w event =
     (let internal = reply 500 (error_body (lit ''Internal server error'')) in
      case py_get event (lit ''pathParameters'') (PDict []) of
        Inl e \<Rightarrow> (internal, w)
      | Inr path_parameters \<Rightarrow>
          (case py_get path_parameters (lit ''id'') PNone of
             Inl e \<Rightarrow> (internal, w)
           | Inr file_id \<Rightarrow>
               if file_id = PNone
               then (reply 400 (error_body (lit ''File ID is required in the path'')), w)
               else
                 (case ddb_get_item flt w (lit ''file_id'') file_id of
                    (Inl e, w1) \<Rightarrow> (internal, w1)
                  | (Inr (Some it), w1) \<Rightarrow> (reply 200 (PDict it), w1)
                  | (Inr None, w1) \<Rightarrow> (reply 404 (error_body (lit ''File not found'')), w1))))"

section \<open>get\_file\<close>

text \<open>
  Line 10 reads the path parameter before the \<open>try\<close> begins: an exception there leaves
  the handler. The responses with status 400, 404 and 500 carry no headers. The link is
  requested with \<open>ExpiresIn=3600\<close>; \<open>S3_BUCKET\<close> is read from the environment inside
  the \<open>try\<close>. The body is given to \<open>json.dumps\<close> as it is, which raises \<open>TypeError\<close>
  on a \<open>Decimal\<close> in the \<open>filename\<close> attribute.
\<close>

definition bare_reply :: "nat \<Rightarrow> pyval \<Rightarrow> outcome" where
  "bare_reply code b = Returned \<lparr>statusCode = code, headers = None, body = b\<rparr>"

definition issue_link ::
  "platform \<Rightarrow> pystr option \<Rightarrow> item \<Rightarrow> py_error + pyval" where
  "issue_link plat S3_BUCKET it =
     (case map_of it (lit ''s3_key'') of
        None \<Rightarrow> Inl KeyError
      | Some s3_key \<Rightarrow>
          (case S3_BUCKET of
             None \<Rightarrow> Inl KeyError
           | Some bucket \<Rightarrow>
               (case generate_presigned_url plat bucket s3_key 3600 of
                  Inl e \<Rightarrow> Inl e
                | Inr url \<Rightarrow>
                    (let filename = dict_get it (lit ''filename'') (PStr (lit ''file''))
                     in case py_int plat (dict_get it (lit ''size'') (PInt 0)) of
                          Inl e \<Rightarrow> Inl e
                        | Inr n \<Rightarrow>
                            if has_number filename then Inl TypeError
                            else Inr (PDict
                                   [(lit ''download_url'', PStr url),
                                    (lit ''filename'', filename),
                                    (lit ''size'', PInt n)])))))"

definition get_file_lambda_handler ::
  "platform \<Rightarrow> pystr option \<Rightarrow> faults \<Rightarrow> world \<Rightarrow> pyval \<Rightarrow> outcome \<times> world" where
  "get_file_lambda_handler plat S3_BUCKET flt w event =
     (case py_get event (lit ''pathParameters'') (PDict []) of
        Inl e \<Rightarrow> (Raised e, w)
      | Inr path_parameters \<Rightarrow>
          (case py_get path_parameters (lit ''id'') PNone of
             Inl e \<Rightarrow> (Raised e, w)
           | Inr file_id \<Rightarrow>
               if \<not> truthy file_id
               then (bare_reply 400 (error_body (lit ''File ID is required'')), w)
               else
                 (case ddb_get_item flt w (lit ''file_id'') file_id of
                    (Inl e, w1) \<Rightarrow> (bare_reply 500 (error_body (exc_str plat e)), w1)
                  | (Inr None, w1) \<Rightarrow> (bare_reply 404 (error_body (lit ''File not found'')), w1)
                  | (Inr (Some it), w1) \<Rightarrow>
                      (case issue_link plat S3_BUCKET it of
                         Inl e \<Rightarrow> (bare_reply 500 (error_body (exc_str plat e)), w1)
                       | Inr b \<Rightarrow> (reply 200 b, w1)))))"

section \<open>get\_hashes\<close>

text \<open>
  Lines 39 to 42: the cursor is the query parameter \<open>last_evaluated_key\<close>, unquoted and
  parsed as JSON; without the parameter it is \<open>None\<close>.
\<close>

definition read_cursor :: "platform \<Rightarrow> item \<Rightarrow> py_error + pyval" where
  "read_cursor plat params =
     (case map_of params (lit ''last_evaluated_key'') of
        None \<Rightarrow> Inr PNone
      | Some (PStr s) \<Rightarrow> json_loads plat (unquote_plus plat s)
      | Some _ \<Rightarrow> Inl AttributeError)"

text \<open>Lines 45 to 54 and 69 to 75: the attributes of an item that are returned.\<close>

definition alias_values :: "pystr list" where
  "alias_values =
     [lit ''hash'', lit ''file_id'', lit ''name'', lit ''size'', lit ''type'',
      lit ''created_at'', lit ''s3_key'', lit ''download_url'']"

definition rename_item :: "item \<Rightarrow> item" where
  "rename_item it = List.map_filter (\<lambda>attr. map_option (Pair attr) (map_of it attr)) alias_values"

text \<open>
  Line 82: the link to the next page, with the cursor in its external form.
  \<open>json.dumps\<close> raises \<open>TypeError\<close> on a \<open>Decimal\<close>.
\<close>

definition next_page :: "platform \<Rightarrow> int \<Rightarrow> item \<Rightarrow> py_error + pystr" where
  "next_page plat limit key =
     (if has_number (PDict key) then Inl TypeError
      else case quote_plus (json_dumps plat (PDict key)) of
             Inl e \<Rightarrow> Inl e
           | Inr token \<Rightarrow>
               Inr (lit ''?limit='' @ str_int limit @ lit ''&last_evaluated_key='' @ token))"

text \<open>Lines 90 to 96: any exception of the handler gives status 500 with its text.\<close>

definition list_failed :: "platform \<Rightarrow> py_error \<Rightarrow> outcome" where
  "list_failed plat e = reply 500 (error_body (exc_str plat e))"

text \<open>
  Lines 57 to 88: one scan with \<open>Limit\<close> and, for a cursor that is true, with
  \<open>ExclusiveStartKey\<close>; the renamed items, and the link to the next page when the scan
  returned a \<open>LastEvaluatedKey\<close>.
\<close>

definition scan_page ::
  "platform \<Rightarrow> faults \<Rightarrow> world \<Rightarrow> int \<Rightarrow> pyval \<Rightarrow> outcome \<times> world" where
  "scan_page plat flt w limit last_evaluated_key =
     (case ddb_scan flt w (Some limit)
             (if truthy last_evaluated_key then Some last_evaluated_key else None) None of
        (Inl e, w1) \<Rightarrow> (list_failed plat e, w1)
      | (Inr res, w1) \<Rightarrow>
          (let hashes = (lit ''hashes'', PList (map (PDict \<circ> rename_item) (scan_items res)))
           in case LastEvaluatedKey res of
                None \<Rightarrow> (reply 200 (PDict [hashes]), w1)
              | Some key \<Rightarrow>
                  (case next_page plat limit key of
                     Inl e \<Rightarrow> (list_failed plat e, w1)
                   | Inr link \<Rightarrow>
                       (reply 200 (PDict [hashes, (lit ''next_page'', PStr link)]), w1))))"

text \<open>Lines 38 to 42: the page size and the cursor from the query parameters.\<close>

definition list_with_params ::
  "platform \<Rightarrow> faults \<Rightarrow> world \<Rightarrow> item \<Rightarrow> outcome \<times> world" where
  "list_with_params plat flt w params =
     (case py_int plat (dict_get params (lit ''limit'') (PInt 10)) of
        Inl e \<Rightarrow> (list_failed plat e, w)
      | Inr limit \<Rightarrow>
          (case read_cursor plat params of
             Inl e \<Rightarrow> (list_failed plat e, w)
           | Inr last_evaluated_key \<Rightarrow> scan_page plat flt w limit last_evaluated_key))"

text \<open>
  Line 37: \<open>event.get('queryStringParameters', {}) or {}\<close>; a value that is true and
  not a dict has no \<open>get\<close>.
\<close>

definition get_hashes_lambda_handler ::
  "platform \<Rightarrow> faults \<Rightarrow> world \<Rightarrow> pyval \<Rightarrow> outcome \<times> world" where
  "get_hashes_lambda_handler plat flt w event =
     (case py_get event (lit ''queryStringParameters'') (PDict []) of
        Inl e \<Rightarrow> (list_failed plat e, w)
      | Inr q \<Rightarrow>
          (case (if truthy q then q else PDict []) of
             PDict params \<Rightarrow> list_with_params plat flt w params
           | _ \<Rightarrow> (list_failed plat AttributeError, w)))"

section \<open>get\_stats\<close>

text \<open>
  \<open>get_unique_file_count\<close>: one scan, \<open>item['hash']\<close> of every returned item, the size
  of the set of these values. A list or a dict is not hashable; \<open>True\<close>, \<open>1\<close> and
  \<open>Decimal(1)\<close> are the same element of a set.
\<close>

fun set_key :: "pyval \<Rightarrow> py_error + pyval" where
  "set_key (PList _) = Inl TypeError"
| "set_key (PDict _) = Inl TypeError"
| "set_key (PBool b) = Inr (PInt (if b then 1 else 0))"
| "set_key (PFloat (Finite x)) = Inr (if x \<in> \<int> then PInt \<lfloor>x\<rfloor> else PFloat (Finite x))"
| "set_key v = Inr v"

fun hash_values :: "item list \<Rightarrow> py_error + pyval list" where
  "hash_values [] = Inr []"
| "hash_values (it # its) =
     (case map_of it (lit ''hash'') of
        None \<Rightarrow> Inl KeyError
      | Some v \<Rightarrow>
          (case set_key v of
             Inl e \<Rightarrow> Inl e
           | Inr k \<Rightarrow> (case hash_values its of Inl e \<Rightarrow> Inl e | Inr ks \<Rightarrow> Inr (k # ks))))"

definition get_unique_file_count :: "faults \<Rightarrow> world \<Rightarrow> (py_error + int) \<times> world" where
  "get_unique_file_count flt w =
     (case ddb_scan flt w None None None of
        (Inl e, w1) \<Rightarrow> (Inl e, w1)
      | (Inr res, w1) \<Rightarrow>
          (case hash_values (scan_items res) of
             Inl e \<Rightarrow> (Inl e, w1)
           | Inr ks \<Rightarrow> (Inr (int (length (remdups ks))), w1)))"

definition get_deduplication_stats ::
  "faults \<Rightarrow> world \<Rightarrow> (py_error + int \<times> int) \<times> world" where
  "get_deduplication_stats flt w =
     (case ddb_get_counters flt w of
        (Inl e, w1) \<Rightarrow> (Inl e, w1)
      | (Inr c, w1) \<Rightarrow>
          (let cs = (case c of
                       Some x \<Rightarrow> x
                     | None \<Rightarrow> \<lparr>duplicates_avoided = None, total_s3_size_saved = None\<rparr>)
           in (Inr (if_not_exists (duplicates_avoided cs) 0,
                    if_not_exists (total_s3_size_saved cs) 0), w1)))"

definition get_stats_lambda_handler :: "faults \<Rightarrow> world \<Rightarrow> pyval \<Rightarrow> outcome \<times> world" where
  "get_stats_lambda_handler flt w event =
     (let internal = reply 500 (error_body (lit ''Internal server error'')) in
      case get_unique_file_count flt w of
        (Inl e, w1) \<Rightarrow> (internal, w1)
      | (Inr total_files, w1) \<Rightarrow>
          (case get_deduplication_stats flt w1 of
             (Inl e, w2) \<Rightarrow> (internal, w2)
           | (Inr (d, t), w2) \<Rightarrow>
               (reply 200
                  (PDict [(lit ''total_files'', PInt total_files),
                          (lit ''duplicates_avoided'', PInt d),
                          (lit ''total_s3_size_saved'', PInt t)]), w2)))"

section \<open>The service\<close>




section \<open>Observing an invocation\<close>

text \<open>
  The store requests one invocation issued, the kinds of request the claims speak of,
  the hash an upload looked up, and the two counters as \<open>get_stats\<close> reads them.
\<close>

fun is_returned :: "outcome \<Rightarrow> bool" where
  "is_returned (Returned _) = True"
| "is_returned (Raised _) = False"

definition new_calls :: "world \<Rightarrow> world \<Rightarrow> call list" where
  "new_calls w w' = drop (length (calls w)) (calls w')"

fun is_put_item :: "call \<Rightarrow> bool" where
  "is_put_item (CallPutItem _) = True"
| "is_put_item _ = False"

fun is_put_object :: "call \<Rightarrow> bool" where
  "is_put_object (CallPutObject _ _ _) = True"
| "is_put_object _ = False"

fun scan_limit :: "call \<Rightarrow> int option option" where
  "scan_limit (CallScan limit _ _) = Some limit"
| "scan_limit _ = None"

definition content_hash_used :: "world \<Rightarrow> world \<Rightarrow> pyval option" where
  "content_hash_used w w' =
     (case new_calls w w' of CallGetItem attr v # _ \<Rightarrow> Some v | _ \<Rightarrow> None)"

definition counter_values :: "world \<Rightarrow> int \<times> int" where
  "counter_values w =
     (case counters w of
        None \<Rightarrow> (0, 0)
      | Some c \<Rightarrow> (if_not_exists (duplicates_avoided c) 0,
                   if_not_exists (total_s3_size_saved c) 0))"

text \<open>The primary key of the metadata table identifies a row.\<close>

definition primary_key_ok :: "world \<Rightarrow> bool" where
  "primary_key_ok w = distinct (map (\<lambda>r. map_of r (table_key w)) (table_rows w))"

section \<open>A concrete deployment\<close>

text \<open>
  Values for the parameters of the model, on which the handlers can be evaluated. The
  digest is a stand-in that writes every byte as two hexadecimal digits (it has no
  collisions); the decoder follows \<open>binascii.a2b_base64\<close> without strict mode; the
  text of an exception is the name of its class; the link carries the bucket, the key
  and the expiry. The remaining functions are stand-ins defined on the few inputs the
  evaluations below reach: \<open>int\<close> on the unsigned ASCII decimal strings, \<open>json.loads\<close>
  on the text \<open>null\<close>, \<open>unquote_plus\<close> on strings without \<open>%\<close>.
\<close>

definition sample_digest :: "bytes \<Rightarrow> pystr" where
  "sample_digest bs =
     concat (map (\<lambda>b. [hex_lower (unat b div 16), hex_lower (unat b mod 16)]) bs)"

definition b64_value :: "nat \<Rightarrow> nat option" where
  "b64_value c =
     (if 65 \<le> c \<and> c \<le> 90 then Some (c - 65)
      else if 97 \<le> c \<and> c \<le> 122 then Some (c - 71)
      else if 48 \<le> c \<and> c \<le> 57 then Some (c + 4)
      else if c = ch CHR ''+'' then Some 62
      else if c = ch CHR ''/'' then Some 63
      else None)"

fun a2b_base64 :: "nat \<Rightarrow> nat \<Rightarrow> nat \<Rightarrow> pystr \<Rightarrow> py_error + bytes" where
  "a2b_base64 quad_pos leftchar pads [] = (if quad_pos = 0 then Inr [] else Inl BinasciiError)"
| "a2b_base64 quad_pos leftchar pads (c # cs) =
     (if c = ch CHR ''=''
      then (if 2 \<le> quad_pos \<and> 4 \<le> quad_pos + pads + 1 then Inr []
            else a2b_base64 quad_pos leftchar (pads + 1) cs)
      else
        (case b64_value c of
           None \<Rightarrow> a2b_base64 quad_pos leftchar pads cs
         | Some v \<Rightarrow>
             if quad_pos = 0 then a2b_base64 1 v 0 cs
             else
               (case a2b_base64 ((quad_pos + 1) mod 4)
                       (if quad_pos = 1 then v mod 16 else if quad_pos = 2 then v mod 4 else 0)
                       0 cs of
                  Inl e \<Rightarrow> Inl e
                | Inr rest \<Rightarrow>
                    Inr (of_nat (if quad_pos = 1 then leftchar * 4 + v div 16
                                 else if quad_pos = 2 then leftchar * 16 + v div 4
                                 else leftchar * 64 + v) # rest))))"

definition sample_b64decode :: "pyval \<Rightarrow> py_error + bytes" where
  "sample_b64decode v =
     (case v of
        PStr s \<Rightarrow> if list_all (\<lambda>c. c < 128) s then a2b_base64 0 0 0 s else Inl ValueError
      | _ \<Rightarrow> Inl TypeError)"

fun sample_exc_str :: "py_error \<Rightarrow> pystr" where
  "sample_exc_str AttributeError = lit ''AttributeError''"
| "sample_exc_str TypeError = lit ''TypeError''"
| "sample_exc_str ValueError = lit ''ValueError''"
| "sample_exc_str KeyError = lit ''KeyError''"
| "sample_exc_str UnicodeEncodeError = lit ''UnicodeEncodeError''"
| "sample_exc_str BinasciiError = lit ''binascii.Error''"
| "sample_exc_str JSONDecodeError = lit ''JSONDecodeError''"
| "sample_exc_str ClientError = lit ''ClientError''"
| "sample_exc_str ParamValidationError = lit ''ParamValidationError''"
| "sample_exc_str RecursionError = lit ''RecursionError''"
| "sample_exc_str OverflowError = lit ''OverflowError''"

definition sample_presign :: "pystr \<Rightarrow> pyval \<Rightarrow> int \<Rightarrow> py_error + pystr" where
  "sample_presign bucket key ttl =
     (case key of
        PStr k \<Rightarrow>
          Inr (lit ''https://'' @ bucket @ lit ''.s3.amazonaws.com/'' @ k
                 @ lit ''?X-Amz-Expires='' @ str_int ttl)
      | _ \<Rightarrow> Inl ParamValidationError)"

definition sample_repr :: "pyval \<Rightarrow> pystr" where
  "sample_repr v = (case v of PInt n \<Rightarrow> str_int n | PNone \<Rightarrow> lit ''None'' | _ \<Rightarrow> lit ''object'')"

definition sample_int_of_str :: "pystr \<Rightarrow> py_error + int" where
  "sample_int_of_str s =
     (if s \<noteq> [] \<and> list_all (\<lambda>c. 48 \<le> c \<and> c \<le> 57) s
      then Inr (foldl (\<lambda>a c. a * 10 + (int c - 48)) 0 s)
      else Inl ValueError)"

definition sample_json_loads :: "pystr \<Rightarrow> py_error + pyval" where
  "sample_json_loads s = (if s = lit ''null'' then Inr PNone else Inl JSONDecodeError)"

definition sample_unquote_plus :: "pystr \<Rightarrow> pystr" where
  "sample_unquote_plus s = map (\<lambda>c. if c = ch CHR ''+'' then 32 else c) s"

definition sample_platform :: platform where
  "sample_platform =
     \<lparr>sha256_hexdigest = sample_digest,
      b64decode = sample_b64decode,
      exc_str = sample_exc_str,
      py_repr = sample_repr,
      generate_presigned_url = sample_presign,
      int_of_str = sample_int_of_str,
      json_loads = sample_json_loads,
      unquote_plus = sample_unquote_plus\<rparr>"

definition no_faults :: faults where
  "no_faults k = False"

definition sample_ambient :: "string \<Rightarrow> ambient" where
  "sample_ambient tag =
     \<lparr>uuid_for_name = lit ''uuid-name-'' @ lit tag,
      uuid_for_id = lit ''uuid-id-'' @ lit tag,
      utcnow_isoformat = lit ''2024-01-01T00:00:00''\<rparr>"

definition empty_world :: "string \<Rightarrow> world" where
  "empty_world key =
     \<lparr>table_key = lit key, table_rows = [], table_page = 100, counters = None,
      blobs = Map.empty, calls = []\<rparr>"


section \<open>Evaluation and basic facts\<close>

lemmas eval_simps = lit_def ch_def dict_get_def decode_body_def utf8_char_def
  sample_platform_def sample_ambient_def no_faults_def empty_world_def

lemma status_of_reply [simp]: "status_of (reply c b) = Some c"
  by (simp add: reply_def status_of_def)

lemma duplicate_found_status [simp]:
  "status_of (fst (duplicate_found flt w it n)) = Some 409"
  by (simp add: duplicate_found_def split: prod.splits)

lemma store_new_status:
  "status_of (fst (store_new plat B amb flt w fb fn ct h)) \<in> {Some 500, Some 201}"
  by (simp add: store_new_def Let_def split: prod.splits sum.splits)

lemma store_new_not_400 [simp]:
  "status_of (fst (store_new plat B amb flt w fb fn ct h)) \<noteq> Some 400"
  using store_new_status [of plat B amb flt w fb fn ct h] by auto

section \<open>Client errors of the upload\<close>

text \<open>
  C3, as stated, fails: the upload also answers 400 when the payload is present and
  decodable but the event has no \<open>headers\<close> (lines 61 to 66). The event below carries
  the body \<open>hello\<close>, which decodes to five bytes, and is refused.
\<close>

theorem upload_headers_counterexample:
  "status_of (fst (upload_file_lambda_handler sample_platform (lit ''bucket'')
      (sample_ambient ''1'') no_faults (empty_world ''hash'')
      (PDict [(lit ''body'', PStr (lit ''hello''))]))) = Some 400
   \<and> map_of [(lit ''body'', PStr (lit ''hello''))] (lit ''body'') = Some (PStr (lit ''hello''))
   \<and> decode_body sample_platform [(lit ''body'', PStr (lit ''hello''))]
       = Inr [104, 101, 108, 108, 111]"
  by (simp add: upload_file_lambda_handler_def eval_simps)

text \<open>
  C3, amended: the upload answers with the client error 400 exactly when the event is
  not a dict, or has no \<open>body\<close>, or has no \<open>headers\<close> that are a dict, or the body cannot
  be decoded under the declared transfer encoding; and then the stores, the counters
  and the sequence of store requests are what they were.
\<close>

theorem upload_client_error_iff:
  "(status_of (fst (upload_file_lambda_handler plat B amb flt w event)) = Some 400
     \<longleftrightarrow>
    (case event of
       PDict ev \<Rightarrow>
         map_of ev (lit ''body'') = None
         \<or> (case map_of ev (lit ''headers'') of Some (PDict _) \<Rightarrow> False | _ \<Rightarrow> True)
         \<or> isl (decode_body plat ev)
     | _ \<Rightarrow> True))
   \<and> (status_of (fst (upload_file_lambda_handler plat B amb flt w event)) = Some 400
        \<longrightarrow> snd (upload_file_lambda_handler plat B amb flt w event) = w)"
  by (auto simp: upload_file_lambda_handler_def Let_def
      split: pyval.splits option.splits sum.splits prod.splits if_splits)

theorem upload_client_error_witness:
  "snd (upload_file_lambda_handler sample_platform (lit ''bucket'')
      (sample_ambient ''1'') no_faults (empty_world ''hash'')
      (PDict [(lit ''body'', PNone), (lit ''headers'', PDict [])])) = empty_world ''hash''
   \<and> status_of (fst (upload_file_lambda_handler sample_platform (lit ''bucket'')
      (sample_ambient ''1'') no_faults (empty_world ''hash'')
      (PDict [(lit ''body'', PNone), (lit ''headers'', PDict [])]))) = Some 400"
  using upload_client_error_iff [of sample_platform "lit ''bucket''" "sample_ambient ''1''"
      no_faults "empty_world ''hash''" "PDict [(lit ''body'', PNone), (lit ''headers'', PDict [])]"]
  by (simp add: eval_simps)

section \<open>Every handler returns, but one\<close>

lemma is_returned_reply [simp]:
  "is_returned (reply c b)" "is_returned (bare_reply c b)" "is_returned (list_failed plat e)"
  by (simp_all add: reply_def bare_reply_def list_failed_def)

lemma duplicate_found_returns [simp]: "is_returned (fst (duplicate_found flt w it n))"
  by (simp add: duplicate_found_def split: prod.splits)

lemma store_new_returns [simp]: "is_returned (fst (store_new plat B amb flt w fb fn ct h))"
  by (simp add: store_new_def Let_def split: prod.splits sum.splits)

lemma upload_returns: "is_returned (fst (upload_file_lambda_handler plat B amb flt w event))"
  by (simp add: upload_file_lambda_handler_def Let_def
       split: pyval.splits option.splits sum.splits prod.splits)

lemma get_metadata_returns: "is_returned (fst (get_metadata_lambda_handler flt w event))"
  by (simp add: get_metadata_lambda_handler_def Let_def
       split: option.splits sum.splits prod.splits)

lemma scan_page_returns [simp]: "is_returned (fst (scan_page plat flt w limit k))"
  by (simp add: scan_page_def Let_def split: option.splits sum.splits prod.splits)

lemma list_with_params_returns [simp]: "is_returned (fst (list_with_params plat flt w params))"
  by (simp add: list_with_params_def split: sum.splits)

lemma get_hashes_returns: "is_returned (fst (get_hashes_lambda_handler plat flt w event))"
  by (simp add: get_hashes_lambda_handler_def split: pyval.splits sum.splits)

lemma get_stats_returns: "is_returned (fst (get_stats_lambda_handler flt w event))"
  by (simp add: get_stats_lambda_handler_def Let_def
       split: option.splits sum.splits prod.splits)

text \<open>
  The same event, with \<open>pathParameters\<close> null as API Gateway sends it for a route
  without path parameters, is answered with status 500 by \<open>get_metadata\<close>, whose
  \<open>try\<close> encloses the read of the parameter.
\<close>

lemma get_metadata_same_event_caught:
  "status_of (fst (get_metadata_lambda_handler flt w (PDict [(lit ''pathParameters'', PNone)])))
     = Some 500"
  by (simp add: get_metadata_lambda_handler_def dict_get_def Let_def reply_def status_of_def)

text \<open>
  C9 does not hold of \<open>get_file\<close>: on the event \<open>{"pathParameters": null}\<close> line 10
  evaluates \<open>None.get('id')\<close> outside the \<open>try\<close>, and the \<open>AttributeError\<close> leaves the
  handler; no store is touched. The four other handlers return on every event.
\<close>

theorem get_file_uncaught:
  "get_file_lambda_handler plat bucket flt w (PDict [(lit ''pathParameters'', PNone)])
     = (Raised AttributeError, w)"
  by (simp add: get_file_lambda_handler_def dict_get_def)

section \<open>The page size of a listing\<close>

lemma new_calls_record [simp]: "new_calls w (record_call c w) = [c]"
  by (simp add: new_calls_def record_call_def)

lemma new_calls_same [simp]: "new_calls w w = []"
  by (simp add: new_calls_def)

lemma ddb_scan_world:
  "snd (ddb_scan flt w limit start filt) = record_call (CallScan limit start filt) w"
  by (simp add: ddb_scan_def Let_def split: option.splits sum.splits)

lemma scan_page_world:
  "snd (scan_page plat flt w limit k)
     = record_call (CallScan (Some limit) (if truthy k then Some k else None) None) w"
  using ddb_scan_world [of flt w "Some limit" "if truthy k then Some k else None" None]
  by (auto simp: scan_page_def Let_def split: option.splits sum.splits prod.splits)

lemmas int_simps = sample_int_of_str_def

text \<open>
  C8, as stated, fails: there is no cap. Whatever bound is proposed, a larger \<open>limit\<close>
  is passed to the scan as its \<open>Limit\<close>; so is the query parameter \<open>limit=1000000\<close>.
\<close>

theorem list_limit_uncapped_counterexample:
  "(\<forall>cap. \<exists>n. cap < n \<and>
      calls (snd (get_hashes_lambda_handler sample_platform no_faults (empty_world ''file_id'')
        (PDict [(lit ''queryStringParameters'', PDict [(lit ''limit'', PInt n)])])))
      = [CallScan (Some n) None None])
   \<and> calls (snd (get_hashes_lambda_handler sample_platform no_faults (empty_world ''file_id'')
        (PDict [(lit ''queryStringParameters'', PDict [(lit ''limit'', PStr (lit ''1000000''))])])))
      = [CallScan (Some 1000000) None None]"
proof -
  have a: "calls (snd (get_hashes_lambda_handler sample_platform no_faults (empty_world ''file_id'')
        (PDict [(lit ''queryStringParameters'', PDict [(lit ''limit'', PInt n)])])))
      = [CallScan (Some n) None None]" for n
    by (simp add: get_hashes_lambda_handler_def list_with_params_def scan_page_world
        read_cursor_def record_call_def eval_simps)
  have b: "calls (snd (get_hashes_lambda_handler sample_platform no_faults (empty_world ''file_id'')
        (PDict [(lit ''queryStringParameters'', PDict [(lit ''limit'', PStr (lit ''1000000''))])])))
      = [CallScan (Some 1000000) None None]"
    by (simp add: get_hashes_lambda_handler_def list_with_params_def scan_page_world
        read_cursor_def record_call_def eval_simps int_simps)
  have "\<exists>n. cap < n \<and>
      calls (snd (get_hashes_lambda_handler sample_platform no_faults (empty_world ''file_id'')
        (PDict [(lit ''queryStringParameters'', PDict [(lit ''limit'', PInt n)])])))
      = [CallScan (Some n) None None]" for cap :: int
    using a [of "cap + 1"] by (intro exI [of _ "cap + 1"]) simp
  with b show ?thesis by blast
qed

text \<open>
  C8, amended: a listing whose query parameters are a dict (or missing, or false) and
  whose \<open>limit\<close> is accepted by \<open>int\<close> requests that number of records from the
  store, unchanged, whatever its size: every scan the handler issues carries it as
  \<open>Limit\<close>, the handler issues exactly one scan when the cursor is readable, and the
  number is 10 when no \<open>limit\<close> is supplied.
\<close>

theorem list_limit_requested:
  assumes "py_get event (lit ''queryStringParameters'') (PDict []) = Inr q"
    and "(if truthy q then q else PDict []) = PDict params"
    and "py_int plat (dict_get params (lit ''limit'') (PInt 10)) = Inr n"
  shows "list_all (\<lambda>c. scan_limit c = Some (Some n))
           (new_calls w (snd (get_hashes_lambda_handler plat flt w event)))
         \<and> (\<forall>k. read_cursor plat params = Inr k \<longrightarrow>
                new_calls w (snd (get_hashes_lambda_handler plat flt w event))
                  = [CallScan (Some n) (if truthy k then Some k else None) None])
         \<and> (map_of params (lit ''limit'') = None \<longrightarrow> n = 10)"
  using assms
  by (auto simp: get_hashes_lambda_handler_def list_with_params_def scan_page_world dict_get_def
      split: sum.splits)

theorem list_limit_requested_witness:
  "new_calls (empty_world ''file_id'')
     (snd (get_hashes_lambda_handler sample_platform no_faults (empty_world ''file_id'') (PDict [])))
   = [CallScan (Some 10) None None]
   \<and> new_calls (empty_world ''file_id'')
     (snd (get_hashes_lambda_handler sample_platform no_faults (empty_world ''file_id'')
        (PDict [(lit ''queryStringParameters'', PDict [(lit ''limit'', PStr (lit ''5000''))])])))
   = [CallScan (Some 5000) None None]"
  using list_limit_requested [of "PDict []" "PDict []" "[]" sample_platform 10
      "empty_world ''file_id''" no_faults]
    list_limit_requested [of
      "PDict [(lit ''queryStringParameters'', PDict [(lit ''limit'', PStr (lit ''5000''))])]"
      "PDict [(lit ''limit'', PStr (lit ''5000''))]" "[(lit ''limit'', PStr (lit ''5000''))]"
      sample_platform 5000 "empty_world ''file_id''" no_faults]
  by (simp add: dict_get_def read_cursor_def lit_def sample_platform_def sample_int_of_str_def)

section \<open>The order of the writes of an upload\<close>

lemma new_calls_append: "calls w' = calls w @ cs \<Longrightarrow> new_calls w w' = cs"
  by (simp add: new_calls_def)

lemma ddb_get_item_world:
  "snd (ddb_get_item flt w a v) = record_call (CallGetItem a v) w"
  by (simp add: ddb_get_item_def Let_def)

lemma check_duplicate_world:
  "snd (check_duplicate flt w h) = record_call (CallGetItem (lit ''hash'') (PStr h)) w
   \<or> snd (check_duplicate flt w h)
       = record_call (CallScan None None (Some (lit ''hash'', PStr h)))
           (record_call (CallGetItem (lit ''hash'') (PStr h)) w)"
  using ddb_get_item_world [of flt w "lit ''hash''" "PStr h"]
    ddb_scan_world [of flt "record_call (CallGetItem (lit ''hash'') (PStr h)) w" None None
      "Some (lit ''hash'', PStr h)"]
  by (auto simp: check_duplicate_def split: prod.splits sum.splits)

text \<open>What the lookup leaves unchanged, and that it puts nothing.\<close>

lemma check_duplicate_frame:
  assumes "check_duplicate flt w h = (r, w1)"
  shows "\<exists>cs. calls w1 = calls w @ cs \<and> list_all (\<lambda>c. \<not> is_put_item c \<and> \<not> is_put_object c) cs
           \<and> table_rows w1 = table_rows w \<and> table_key w1 = table_key w
           \<and> table_page w1 = table_page w \<and> blobs w1 = blobs w \<and> counters w1 = counters w"
  using check_duplicate_world [of flt w h] assms
  by (auto simp: record_call_def)

lemma duplicate_found_frame:
  assumes "duplicate_found flt w e n = (out, w1)"
  shows "calls w1 = calls w @ [CallUpdateItem n] \<and> table_rows w1 = table_rows w
         \<and> table_key w1 = table_key w \<and> table_page w1 = table_page w \<and> blobs w1 = blobs w
         \<and> out = reply 409 (PDict e)"
  using assms
  by (auto simp: duplicate_found_def ddb_update_counters_def record_call_def Let_def
      split: prod.splits if_splits)

text \<open>
  The new-file path: the object is put first; the metadata item is put only when the
  object is stored.
\<close>

lemma s3_put_object_result:
  "s3_put_object flt w k fb ct
     = (if is_str ct \<and> \<not> flt OpPutObject
        then (Inr (), (record_call (CallPutObject k fb ct) w)\<lparr>blobs := (blobs w)(k \<mapsto> (fb, ct))\<rparr>)
        else (Inl (if is_str ct then ClientError else ParamValidationError),
              record_call (CallPutObject k fb ct) w))"
  by (simp add: s3_put_object_def Let_def)

lemma ddb_put_item_frame:
  assumes "ddb_put_item flt w m = (r, w1)"
  shows "calls w1 = calls w @ [CallPutItem m] \<and> blobs w1 = blobs w
         \<and> (isl r \<longrightarrow> table_rows w1 = table_rows w)"
  using assms by (auto simp: ddb_put_item_def record_call_def Let_def split: if_splits)

lemma store_new_frame:
  assumes "store_new plat B amb flt w fb fn ct h = (out, w1)"
  shows "(calls w1 = calls w @ [CallPutObject (lit ''files/'' @ h @ lit ''/'' @ fmt plat fn) fb ct]
            \<and> blobs w1 = blobs w \<and> table_rows w1 = table_rows w \<and> status_of out = Some 500)
       \<or> (\<exists>m. calls w1
                 = calls w @ [CallPutObject (lit ''files/'' @ h @ lit ''/'' @ fmt plat fn) fb ct,
                              CallPutItem m]
              \<and> blobs w1 = (blobs w)(lit ''files/'' @ h @ lit ''/'' @ fmt plat fn \<mapsto> (fb, ct))
              \<and> (status_of out = Some 201
                  \<or> status_of out = Some 500 \<and> table_rows w1 = table_rows w))"
proof (cases "is_str ct \<and> \<not> flt OpPutObject")
  case False
  then show ?thesis
    using assms by (auto simp: store_new_def s3_put_object_result record_call_def Let_def)
next
  case True
  define k where "k = lit ''files/'' @ h @ lit ''/'' @ fmt plat fn"
  define w0 where
    "w0 = (record_call (CallPutObject k fb ct) w)\<lparr>blobs := (blobs w)(k \<mapsto> (fb, ct))\<rparr>"
  obtain m r w2 where put: "ddb_put_item flt w0 m = (r, w2)" and
    res: "w1 = w2" "status_of out = (if isl r then Some 500 else Some 201)"
    using assms True
    by (auto simp: store_new_def s3_put_object_result Let_def k_def w0_def
        split: prod.splits sum.splits)
  from ddb_put_item_frame [OF put] res
  have "calls w1 = calls w @ [CallPutObject k fb ct, CallPutItem m]"
    "blobs w1 = (blobs w)(k \<mapsto> (fb, ct))"
    "status_of out = Some 201 \<or> status_of out = Some 500 \<and> table_rows w1 = table_rows w"
    by (auto simp: w0_def record_call_def)
  then show ?thesis unfolding k_def by blast
qed

lemma upload_cases [consumes 1, case_names rejected failed dup new]:
  assumes "upload_file_lambda_handler plat B amb flt w event = (out, w')"
  obtains
    (rejected) "w' = w" "status_of out = Some 400"
  | (failed) ev bs e where "event = PDict ev" "decode_body plat ev = Inr bs"
      "check_duplicate flt w (sha256_hexdigest plat bs) = (Inl e, w')"
      "status_of out = Some 500"
  | (dup) ev bs e w1 where "event = PDict ev" "decode_body plat ev = Inr bs"
      "check_duplicate flt w (sha256_hexdigest plat bs) = (Inr (Some e), w1)"
      "duplicate_found flt w1 e (int (length bs)) = (out, w')"
  | (new) ev bs x w1 fn ct where "event = PDict ev" "decode_body plat ev = Inr bs"
      "check_duplicate flt w (sha256_hexdigest plat bs) = (Inr x, w1)"
      "store_new plat B amb flt w1 bs fn ct (sha256_hexdigest plat bs) = (out, w')"
  using assms
  by (auto simp: upload_file_lambda_handler_def Let_def
      split: pyval.splits option.splits sum.splits prod.splits if_splits)

text \<open>
  Over all uploads: a metadata \<open>put_item\<close>, when there is one, is the last request and
  directly follows the one \<open>put_object\<close>, which succeeded.
\<close>

lemma upload_put_item_last:
  assumes "upload_file_lambda_handler plat B amb flt w event = (out, w')"
  shows "(list_all (\<lambda>c. \<not> is_put_item c) (new_calls w w') \<and> table_rows w' = table_rows w)
       \<or> (\<exists>pre k b ct m.
             new_calls w w' = pre @ [CallPutObject k b ct, CallPutItem m]
             \<and> list_all (\<lambda>c. \<not> is_put_item c \<and> \<not> is_put_object c) pre
             \<and> blobs w' k = Some (b, ct))"
  using assms
proof (cases rule: upload_cases)
  case rejected
  then show ?thesis by simp
next
  case (failed ev bs e)
  from check_duplicate_frame [OF failed(3)] obtain cs where
    "calls w' = calls w @ cs" "list_all (\<lambda>c. \<not> is_put_item c \<and> \<not> is_put_object c) cs"
    "table_rows w' = table_rows w"
    by blast
  then have "new_calls w w' = cs" "list_all (\<lambda>c. \<not> is_put_item c) cs"
    "table_rows w' = table_rows w"
    by (auto simp: list_all_iff dest: new_calls_append)
  then show ?thesis by simp
next
  case (dup ev bs e w1)
  from check_duplicate_frame [OF dup(3)] obtain cs where
    cs: "calls w1 = calls w @ cs" "list_all (\<lambda>c. \<not> is_put_item c \<and> \<not> is_put_object c) cs"
      "table_rows w1 = table_rows w"
    by blast
  from duplicate_found_frame [OF dup(4)] cs have
    "calls w' = calls w @ (cs @ [CallUpdateItem (int (length bs))])" "table_rows w' = table_rows w"
    by auto
  then have "new_calls w w' = cs @ [CallUpdateItem (int (length bs))]"
    "table_rows w' = table_rows w"
    by (auto dest: new_calls_append)
  with cs(2) show ?thesis by (simp add: list_all_iff)
next
  case (new ev bs x w1 fn ct)
  define k where "k = lit ''files/'' @ sha256_hexdigest plat bs @ lit ''/'' @ fmt plat fn"
  from check_duplicate_frame [OF new(3)] obtain cs where
    cs: "calls w1 = calls w @ cs" "list_all (\<lambda>c. \<not> is_put_item c \<and> \<not> is_put_object c) cs"
      "table_rows w1 = table_rows w"
    by blast
  from store_new_frame [OF new(4)] show ?thesis
  proof
    assume "calls w' = calls w1 @ [CallPutObject
                (lit ''files/'' @ sha256_hexdigest plat bs @ lit ''/'' @ fmt plat fn) bs ct]
              \<and> blobs w' = blobs w1 \<and> table_rows w' = table_rows w1 \<and> status_of out = Some 500"
    then have "calls w' = calls w @ (cs @ [CallPutObject k bs ct])"
      "table_rows w' = table_rows w"
      using cs by (auto simp: k_def)
    then have "new_calls w w' = cs @ [CallPutObject k bs ct]" "table_rows w' = table_rows w"
      by (auto dest: new_calls_append)
    with cs(2) show ?thesis by (simp add: list_all_iff)
  next
    assume "\<exists>m. calls w' = calls w1 @ [CallPutObject
                (lit ''files/'' @ sha256_hexdigest plat bs @ lit ''/'' @ fmt plat fn) bs ct,
                CallPutItem m]
              \<and> blobs w' = (blobs w1)
                  (lit ''files/'' @ sha256_hexdigest plat bs @ lit ''/'' @ fmt plat fn \<mapsto> (bs, ct))
              \<and> (status_of out = Some 201
                  \<or> status_of out = Some 500 \<and> table_rows w' = table_rows w1)"
    then obtain m where
      "calls w' = calls w @ (cs @ [CallPutObject k bs ct, CallPutItem m])"
      "blobs w' k = Some (bs, ct)"
      using cs by (auto simp: k_def)
    then have "new_calls w w' = cs @ [CallPutObject k bs ct, CallPutItem m]"
      "blobs w' k = Some (bs, ct)"
      by (auto dest: new_calls_append)
    with cs(2) show ?thesis by blast
  qed
qed

lemmas upload_eval = upload_file_lambda_handler_def check_duplicate_def ddb_get_item_def
  ddb_scan_def scan_request_error_def scan_from_def matches_def store_new_def
  duplicate_found_def s3_put_object_def ddb_put_item_def ddb_update_counters_def
  record_call_def is_key_value_def fmt_def reply_def error_body_def json_headers_def
  sample_digest_def hex_lower_def if_not_exists_def new_calls_def Let_def

text \<open>
  C1, as stated, fails: on the new-file path the blob is written before any metadata
  write is attempted. Here the later \<open>put_item\<close> fails; the object is in the bucket,
  the table has no record.
\<close>

theorem upload_blob_first_counterexample:
  "new_calls (empty_world ''hash'')
     (snd (upload_file_lambda_handler sample_platform (lit ''bucket'') (sample_ambient ''1'')
        (\<lambda>k. k = OpPutItem) (empty_world ''hash'')
        (PDict [(lit ''body'', PStr (lit ''hi'')),
                (lit ''headers'', PDict [(lit ''filename'', PStr (lit ''a.txt''))])])))
   = [CallGetItem (lit ''hash'') (PStr (lit ''6869'')),
      CallPutObject (lit ''files/6869/a.txt'') [104, 105] (PStr (lit ''application/octet-stream'')),
      CallPutItem
        [(lit ''file_id'', PStr (lit ''uuid-id-1'')),
         (lit ''name'', PStr (lit ''a.txt'')),
         (lit ''size'', PInt 2),
         (lit ''type'', PStr (lit ''application/octet-stream'')),
         (lit ''hash'', PStr (lit ''6869'')),
         (lit ''created_at'', PStr (lit ''2024-01-01T00:00:00'')),
         (lit ''s3_key'', PStr (lit ''files/6869/a.txt'')),
         (lit ''download_url'', PStr (lit ''https://bucket.s3.amazonaws.com/files/6869/a.txt''))]]
   \<and> blobs (snd (upload_file_lambda_handler sample_platform (lit ''bucket'') (sample_ambient ''1'')
        (\<lambda>k. k = OpPutItem) (empty_world ''hash'')
        (PDict [(lit ''body'', PStr (lit ''hi'')),
                (lit ''headers'', PDict [(lit ''filename'', PStr (lit ''a.txt''))])])))
        (lit ''files/6869/a.txt'')
      = Some ([104, 105], PStr (lit ''application/octet-stream''))
   \<and> table_rows (snd (upload_file_lambda_handler sample_platform (lit ''bucket'')
        (sample_ambient ''1'') (\<lambda>k. k = OpPutItem) (empty_world ''hash'')
        (PDict [(lit ''body'', PStr (lit ''hi'')),
                (lit ''headers'', PDict [(lit ''filename'', PStr (lit ''a.txt''))])]))) = []"
  by (simp add: upload_eval eval_simps)

text \<open>
  C1, amended: the code has no conditional insert. On the new-file path (the event is
  accepted, the payload decodes, and the lookup by hash returned no record) the first
  request after the lookup is always the \<open>put_object\<close> of the payload under
  \<open>files/<hash>/<filename>\<close>. When it fails, nothing else is requested, the bucket and
  the table are unchanged and the status is 500. When it succeeds, the blob is in the
  bucket and the one unconditional \<open>put_item\<close> follows as the last request. The lookup
  itself puts nothing: the metadata is never written before the blob.
\<close>

theorem upload_blob_before_metadata:
  assumes "map_of ev (lit ''body'') \<noteq> None"
    and "map_of ev (lit ''headers'') = Some (PDict hdrs)"
    and "decode_body plat ev = Inr bs"
    and "check_duplicate flt w (sha256_hexdigest plat bs) = (Inr None, w1)"
    and "upload_file_lambda_handler plat B amb flt w (PDict ev) = (out, w')"
  shows "let name = dict_get hdrs (lit ''filename'') PNone;
             filename = (if truthy name then name else PStr (uuid_for_name amb @ lit ''.bin''));
             content_type = dict_get hdrs (lit ''content-type'')
                              (PStr (lit ''application/octet-stream''));
             s3_key = lit ''files/'' @ sha256_hexdigest plat bs @ lit ''/'' @ fmt plat filename
         in list_all (\<lambda>c. \<not> is_put_item c \<and> \<not> is_put_object c) (new_calls w w1)
            \<and> ((new_calls w w' = new_calls w w1 @ [CallPutObject s3_key bs content_type]
                 \<and> blobs w' = blobs w \<and> table_rows w' = table_rows w
                 \<and> status_of out = Some 500)
               \<or> (\<exists>m. new_calls w w'
                         = new_calls w w1 @ [CallPutObject s3_key bs content_type, CallPutItem m]
                      \<and> blobs w' = (blobs w)(s3_key \<mapsto> (bs, content_type))
                      \<and> (status_of out = Some 201
                          \<or> status_of out = Some 500 \<and> table_rows w' = table_rows w)))"
proof -
  define filename where
    "filename = (if truthy (dict_get hdrs (lit ''filename'') PNone)
                 then dict_get hdrs (lit ''filename'') PNone
                 else PStr (uuid_for_name amb @ lit ''.bin''))"
  define content_type where
    "content_type = dict_get hdrs (lit ''content-type'') (PStr (lit ''application/octet-stream''))"
  define s3_key where
    "s3_key = lit ''files/'' @ sha256_hexdigest plat bs @ lit ''/'' @ fmt plat filename"
  have body: "(map_of ev (lit ''body'') = None) = False"
    using assms(1) by simp
  have run: "store_new plat B amb flt w1 bs filename content_type (sha256_hexdigest plat bs)
               = (out, w')"
    using assms(2-5)
    by (simp add: upload_file_lambda_handler_def Let_def filename_def content_type_def body)
  from check_duplicate_frame [OF assms(4)] obtain cs where
    cs: "calls w1 = calls w @ cs" "list_all (\<lambda>c. \<not> is_put_item c \<and> \<not> is_put_object c) cs"
      "table_rows w1 = table_rows w" "blobs w1 = blobs w"
    by blast
  have lookup: "new_calls w w1 = cs"
    using cs(1) by (rule new_calls_append)
  from store_new_frame [OF run] have
    "(new_calls w w' = cs @ [CallPutObject s3_key bs content_type]
        \<and> blobs w' = blobs w \<and> table_rows w' = table_rows w \<and> status_of out = Some 500)
     \<or> (\<exists>m. new_calls w w' = cs @ [CallPutObject s3_key bs content_type, CallPutItem m]
            \<and> blobs w' = (blobs w)(s3_key \<mapsto> (bs, content_type))
            \<and> (status_of out = Some 201
                \<or> status_of out = Some 500 \<and> table_rows w' = table_rows w))"
    using cs by (auto simp: s3_key_def new_calls_def)
  with cs(2) lookup show ?thesis
    by (simp add: Let_def filename_def content_type_def s3_key_def)
qed

theorem upload_blob_before_metadata_witness:
  "new_calls (empty_world ''hash'')
     (snd (upload_file_lambda_handler sample_platform (lit ''bucket'') (sample_ambient ''1'')
        no_faults (empty_world ''hash'')
        (PDict [(lit ''body'', PStr (lit ''hi'')), (lit ''headers'', PDict [])])))
   = [CallGetItem (lit ''hash'') (PStr (lit ''6869''))]
     @ [CallPutObject (lit ''files/6869/uuid-name-1.bin'') [104, 105]
          (PStr (lit ''application/octet-stream'')),
        CallPutItem
          [(lit ''file_id'', PStr (lit ''uuid-id-1'')),
           (lit ''name'', PStr (lit ''uuid-name-1.bin'')),
           (lit ''size'', PInt 2),
           (lit ''type'', PStr (lit ''application/octet-stream'')),
           (lit ''hash'', PStr (lit ''6869'')),
           (lit ''created_at'', PStr (lit ''2024-01-01T00:00:00'')),
           (lit ''s3_key'', PStr (lit ''files/6869/uuid-name-1.bin'')),
           (lit ''download_url'',
            PStr (lit ''https://bucket.s3.amazonaws.com/files/6869/uuid-name-1.bin''))]]
   \<and> (let w' = snd (upload_file_lambda_handler sample_platform (lit ''bucket'')
                     (sample_ambient ''1'') no_faults (empty_world ''hash'')
                     (PDict [(lit ''body'', PStr (lit ''hi'')), (lit ''headers'', PDict [])]))
      in blobs w' = (blobs (empty_world ''hash''))
                      (lit ''files/6869/uuid-name-1.bin''
                         \<mapsto> ([104, 105], PStr (lit ''application/octet-stream''))))"
proof -
  let ?w = "empty_world ''hash''"
  let ?ev = "[(lit ''body'', PStr (lit ''hi'')), (lit ''headers'', PDict [])]"
  let ?run = "upload_file_lambda_handler sample_platform (lit ''bucket'') (sample_ambient ''1'')
                no_faults ?w (PDict ?ev)"
  have h1: "map_of ?ev (lit ''body'') \<noteq> None" by (simp add: lit_def)
  have h2: "map_of ?ev (lit ''headers'') = Some (PDict [])" by (simp add: lit_def)
  have h3: "decode_body sample_platform ?ev = Inr [104, 105]" by (simp add: eval_simps)
  have h4: "check_duplicate no_faults ?w (sha256_hexdigest sample_platform [104, 105])
              = (Inr None, record_call (CallGetItem (lit ''hash'') (PStr (lit ''6869''))) ?w)"
    by (simp add: upload_eval eval_simps)
  have h5: "?run = (fst ?run, snd ?run)" by simp
  show ?thesis
    using upload_blob_before_metadata [OF h1 h2 h3 h4 h5]
    by (simp add: upload_eval eval_simps)
qed

section \<open>The duplicate path\<close>

lemma find_unique:
  assumes "distinct (map f xs)" "e \<in> set xs" "f e = v"
  shows "find (\<lambda>r. f r = v) xs = Some e"
  using assms by (induction xs) (auto simp: image_iff)

lemma first_match_find: "(case filter P xs of [] \<Rightarrow> None | x # _ \<Rightarrow> Some x) = find P xs"
  by (induction xs) auto

lemma matches_Some: "matches (Some (a, v)) = (\<lambda>r. map_of r a = Some v)"
  by (rule ext) (simp add: matches_def)

text \<open>
  The lookup on a table keyed by the hash is one \<open>get_item\<close>; the primary key
  identifies the row.
\<close>

lemma check_duplicate_by_key:
  assumes "table_key w = lit ''hash''" "\<not> flt OpGetItem" "h \<noteq> []"
  shows "check_duplicate flt w h
           = (Inr (find (\<lambda>r. map_of r (lit ''hash'') = Some (PStr h)) (table_rows w)),
              record_call (CallGetItem (lit ''hash'') (PStr h)) w)"
  using assms by (simp add: check_duplicate_def ddb_get_item_def is_key_value_def Let_def)

text \<open>
  On a table that is not keyed by the hash the lookup falls back to one scan call: the
  record is found when it lies in the page that this one call evaluates. The
  \<open>LastEvaluatedKey\<close> of the scan is not read.
\<close>

lemma check_duplicate_by_scan:
  assumes "table_key w \<noteq> lit ''hash''" "\<not> flt OpScan"
  shows "check_duplicate flt w h
           = (Inr (find (\<lambda>r. map_of r (lit ''hash'') = Some (PStr h))
                     (take (table_page w) (table_rows w))),
              record_call (CallScan None None (Some (lit ''hash'', PStr h)))
                (record_call (CallGetItem (lit ''hash'') (PStr h)) w))"
  using assms
  by (simp add: check_duplicate_def ddb_get_item_def ddb_scan_def scan_request_error_def
      scan_from_def matches_Some record_call_def Let_def first_match_find)

lemma duplicate_found_result:
  "duplicate_found flt w e n
     = (reply 409 (PDict e),
        if flt OpUpdateItem then record_call (CallUpdateItem n) w
        else (record_call (CallUpdateItem n) w)
               \<lparr>counters := Some
                  \<lparr>duplicates_avoided = Some (fst (counter_values w) + 1),
                   total_s3_size_saved = Some (snd (counter_values w) + n)\<rparr>\<rparr>)"
  by (simp add: duplicate_found_def ddb_update_counters_def counter_values_def Let_def
      if_not_exists_def split: option.splits)

text \<open>
  When the lookup returns a record, the upload returns status 409 with that record as
  it is stored (its name included); after the lookup the only request is the
  increment of the counters by 1 and by the size of the upload, whose failure is only
  logged. The table and the bucket are unchanged.
\<close>

lemma upload_duplicate_when_found:
  assumes "map_of ev (lit ''body'') \<noteq> None" "map_of ev (lit ''headers'') = Some (PDict hdrs)"
    and "decode_body plat ev = Inr bs"
    and "check_duplicate flt w (sha256_hexdigest plat bs) = (Inr (Some e), w1)" "e \<noteq> []"
  shows "upload_file_lambda_handler plat B amb flt w (PDict ev)
     = (reply 409 (PDict e),
        w1\<lparr>calls := calls w1 @ [CallUpdateItem (int (length bs))],
           counters :=
             if flt OpUpdateItem then counters w1
             else Some \<lparr>duplicates_avoided = Some (fst (counter_values w1) + 1),
                        total_s3_size_saved =
                          Some (snd (counter_values w1) + int (length bs))\<rparr>\<rparr>)"
  using assms
  by (auto simp: upload_file_lambda_handler_def Let_def duplicate_found_result record_call_def)

lemma upload_duplicate_by_key:
  assumes "map_of ev (lit ''body'') \<noteq> None" "map_of ev (lit ''headers'') = Some (PDict hdrs)"
    and "decode_body plat ev = Inr bs"
    and "table_key w = lit ''hash''" "\<not> flt OpGetItem" "primary_key_ok w"
    and "e \<in> set (table_rows w)"
    and "map_of e (lit ''hash'') = Some (PStr (sha256_hexdigest plat bs))"
    and "sha256_hexdigest plat bs \<noteq> []"
  shows "upload_file_lambda_handler plat B amb flt w (PDict ev)
     = (reply 409 (PDict e),
        w\<lparr>calls := calls w @ [CallGetItem (lit ''hash'') (PStr (sha256_hexdigest plat bs)),
                              CallUpdateItem (int (length bs))],
          counters :=
            if flt OpUpdateItem then counters w
            else Some \<lparr>duplicates_avoided = Some (fst (counter_values w) + 1),
                       total_s3_size_saved = Some (snd (counter_values w) + int (length bs))\<rparr>\<rparr>)"
proof -
  have "e \<noteq> []" using assms(8) by auto
  moreover have "find (\<lambda>r. map_of r (lit ''hash'') = Some (PStr (sha256_hexdigest plat bs)))
                   (table_rows w) = Some e"
    using assms(4,6,7,8)
      find_unique [of "\<lambda>r. map_of r (lit ''hash'')" "table_rows w" e
        "Some (PStr (sha256_hexdigest plat bs))"]
    by (simp add: primary_key_ok_def)
  ultimately show ?thesis
    using upload_duplicate_when_found [OF assms(1-3), of flt w e _ B amb]
      check_duplicate_by_key [of w flt "sha256_hexdigest plat bs"] assms(4,5,9)
    by (simp add: record_call_def counter_values_def)
qed

lemma upload_duplicate_in_page:
  assumes "map_of ev (lit ''body'') \<noteq> None" "map_of ev (lit ''headers'') = Some (PDict hdrs)"
    and "decode_body plat ev = Inr bs"
    and "table_key w \<noteq> lit ''hash''" "\<not> flt OpScan"
    and "find (\<lambda>r. map_of r (lit ''hash'') = Some (PStr (sha256_hexdigest plat bs)))
           (take (table_page w) (table_rows w)) = Some e"
  shows "upload_file_lambda_handler plat B amb flt w (PDict ev)
     = (reply 409 (PDict e),
        w\<lparr>calls := calls w @ [CallGetItem (lit ''hash'') (PStr (sha256_hexdigest plat bs)),
                              CallScan None None
                                (Some (lit ''hash'', PStr (sha256_hexdigest plat bs))),
                              CallUpdateItem (int (length bs))],
          counters :=
            if flt OpUpdateItem then counters w
            else Some \<lparr>duplicates_avoided = Some (fst (counter_values w) + 1),
                       total_s3_size_saved = Some (snd (counter_values w) + int (length bs))\<rparr>\<rparr>)"
proof -
  have "map_of e (lit ''hash'') = Some (PStr (sha256_hexdigest plat bs))"
    using assms(6) by (auto simp: find_Some_iff)
  then have "e \<noteq> []" by auto
  then show ?thesis
    using upload_duplicate_when_found [OF assms(1-3), of flt w e _ B amb]
      check_duplicate_by_scan [of w flt "sha256_hexdigest plat bs"] assms(4,5,6)
    by (simp add: record_call_def counter_values_def)
qed

text \<open>
  C2 does not hold of the code. The metadata table below is keyed by \<open>file_id\<close>, the
  key the handlers \<open>get_metadata\<close> and \<open>get_file\<close> read it by, so the lookup of the
  upload is the fallback scan of lines 98 to 103. That scan is one call and its
  \<open>LastEvaluatedKey\<close> is ignored: the stored record with the hash of the upload (the
  second row) lies behind the page the call evaluates. The upload of the same bytes
  \<open>hello\<close> under the name \<open>b.txt\<close> is answered with status 201, a blob is written and
  a second record with the same hash is inserted; the counters are not touched.
\<close>

theorem upload_duplicate_missed:
  "upload_file_lambda_handler sample_platform (lit ''bucket'') (sample_ambient ''3'') no_faults
     ((empty_world ''file_id'')
        \<lparr>table_page := 1,
         table_rows :=
           [[(lit ''file_id'', PStr (lit ''id-1'')), (lit ''name'', PStr (lit ''x.txt'')),
             (lit ''hash'', PStr (lit ''78''))],
            [(lit ''file_id'', PStr (lit ''id-2'')), (lit ''name'', PStr (lit ''a.txt'')),
             (lit ''hash'', PStr (lit ''68656c6c6f''))]]\<rparr>)
     (PDict [(lit ''body'', PStr (lit ''hello'')),
             (lit ''headers'', PDict [(lit ''filename'', PStr (lit ''b.txt''))])])
   = (reply 201
        (PDict [(lit ''file_id'', PStr (lit ''uuid-id-3'')),
                (lit ''name'', PStr (lit ''b.txt'')),
                (lit ''size'', PInt 5),
                (lit ''type'', PStr (lit ''application/octet-stream'')),
                (lit ''hash'', PStr (lit ''68656c6c6f'')),
                (lit ''created_at'', PStr (lit ''2024-01-01T00:00:00'')),
                (lit ''s3_key'', PStr (lit ''files/68656c6c6f/b.txt'')),
                (lit ''download_url'',
                 PStr (lit ''https://bucket.s3.amazonaws.com/files/68656c6c6f/b.txt''))]),
      (empty_world ''file_id'')
        \<lparr>table_page := 1,
         table_rows :=
           [[(lit ''file_id'', PStr (lit ''id-1'')), (lit ''name'', PStr (lit ''x.txt'')),
             (lit ''hash'', PStr (lit ''78''))],
            [(lit ''file_id'', PStr (lit ''id-2'')), (lit ''name'', PStr (lit ''a.txt'')),
             (lit ''hash'', PStr (lit ''68656c6c6f''))],
            [(lit ''file_id'', PStr (lit ''uuid-id-3'')),
             (lit ''name'', PStr (lit ''b.txt'')),
             (lit ''size'', PInt 5),
             (lit ''type'', PStr (lit ''application/octet-stream'')),
             (lit ''hash'', PStr (lit ''68656c6c6f'')),
             (lit ''created_at'', PStr (lit ''2024-01-01T00:00:00'')),
             (lit ''s3_key'', PStr (lit ''files/68656c6c6f/b.txt'')),
             (lit ''download_url'',
              PStr (lit ''https://bucket.s3.amazonaws.com/files/68656c6c6f/b.txt''))]],
         blobs := [lit ''files/68656c6c6f/b.txt''
                     \<mapsto> ([104, 101, 108, 108, 111], PStr (lit ''application/octet-stream''))],
         calls :=
           [CallGetItem (lit ''hash'') (PStr (lit ''68656c6c6f'')),
            CallScan None None (Some (lit ''hash'', PStr (lit ''68656c6c6f''))),
            CallPutObject (lit ''files/68656c6c6f/b.txt'') [104, 101, 108, 108, 111]
              (PStr (lit ''application/octet-stream'')),
            CallPutItem
              [(lit ''file_id'', PStr (lit ''uuid-id-3'')),
               (lit ''name'', PStr (lit ''b.txt'')),
               (lit ''size'', PInt 5),
               (lit ''type'', PStr (lit ''application/octet-stream'')),
               (lit ''hash'', PStr (lit ''68656c6c6f'')),
               (lit ''created_at'', PStr (lit ''2024-01-01T00:00:00'')),
               (lit ''s3_key'', PStr (lit ''files/68656c6c6f/b.txt'')),
               (lit ''download_url'',
                PStr (lit ''https://bucket.s3.amazonaws.com/files/68656c6c6f/b.txt''))]]\<rparr>)"
  by (simp add: upload_eval eval_simps)

text \<open>
  The same upload on the same table is answered with status 409 and the stored record
  when the page of the one scan call reaches that record.
\<close>

lemma upload_duplicate_within_page:
  "fst (upload_file_lambda_handler sample_platform (lit ''bucket'') (sample_ambient ''3'')
     no_faults
     ((empty_world ''file_id'')
        \<lparr>table_page := 2,
         table_rows :=
           [[(lit ''file_id'', PStr (lit ''id-1'')), (lit ''name'', PStr (lit ''x.txt'')),
             (lit ''hash'', PStr (lit ''78''))],
            [(lit ''file_id'', PStr (lit ''id-2'')), (lit ''name'', PStr (lit ''a.txt'')),
             (lit ''hash'', PStr (lit ''68656c6c6f''))]]\<rparr>)
     (PDict [(lit ''body'', PStr (lit ''hello'')),
             (lit ''headers'', PDict [(lit ''filename'', PStr (lit ''b.txt''))])]))
   = reply 409
       (PDict [(lit ''file_id'', PStr (lit ''id-2'')), (lit ''name'', PStr (lit ''a.txt'')),
               (lit ''hash'', PStr (lit ''68656c6c6f''))])"
  by (simp add: upload_eval eval_simps)

section \<open>The counters\<close>

lemma counters_record_call [simp]: "counters (record_call c w) = counters w"
  by (simp add: record_call_def)













section \<open>The fingerprint of an upload\<close>

text \<open>An accepted upload is the lookup followed by one of the two paths.\<close>

lemma upload_accepted:
  assumes "map_of ev (lit ''body'') \<noteq> None" "map_of ev (lit ''headers'') = Some (PDict hdrs)"
    and "decode_body plat ev = Inr bs"
    and "check_duplicate flt w (sha256_hexdigest plat bs) = (r, w1)"
    and "upload_file_lambda_handler plat B amb flt w (PDict ev) = (out, w')"
  shows "(\<exists>e. r = Inl e \<and> w' = w1 \<and> status_of out = Some 500)
       \<or> (\<exists>it. r = Inr (Some it) \<and> duplicate_found flt w1 it (int (length bs)) = (out, w'))
       \<or> (\<exists>fn ct. store_new plat B amb flt w1 bs fn ct (sha256_hexdigest plat bs) = (out, w'))"
proof -
  have body: "(map_of ev (lit ''body'') = None) = False"
    using assms(1) by simp
  show ?thesis
    using assms(2-5)
    by (auto simp: upload_file_lambda_handler_def Let_def body
        split: sum.splits option.splits if_splits)
qed

lemma upload_first_call:
  assumes "map_of ev (lit ''body'') \<noteq> None" "map_of ev (lit ''headers'') = Some (PDict hdrs)"
    and "decode_body plat ev = Inr bs"
    and "upload_file_lambda_handler plat B amb flt w (PDict ev) = (out, w')"
  shows "\<exists>cs. calls w' = calls w @ CallGetItem (lit ''hash'') (PStr (sha256_hexdigest plat bs)) # cs"
proof -
  obtain r w1 where cd: "check_duplicate flt w (sha256_hexdigest plat bs) = (r, w1)"
    by (cases "check_duplicate flt w (sha256_hexdigest plat bs)")
  have w1: "\<exists>cs. calls w1
              = calls w @ CallGetItem (lit ''hash'') (PStr (sha256_hexdigest plat bs)) # cs"
    using check_duplicate_world [of flt w "sha256_hexdigest plat bs"] cd
    by (auto simp: record_call_def)
  from upload_accepted [OF assms(1-3) cd assms(4)]
  consider (failed) "w' = w1"
    | (dup) it where "duplicate_found flt w1 it (int (length bs)) = (out, w')"
    | (new) fn ct where
        "store_new plat B amb flt w1 bs fn ct (sha256_hexdigest plat bs) = (out, w')"
    by blast
  then show ?thesis
  proof cases
    case failed
    with w1 show ?thesis by simp
  next
    case dup
    from duplicate_found_frame [OF dup] w1 show ?thesis by auto
  next
    case new
    from store_new_frame [OF new] w1 show ?thesis by auto
  qed
qed

lemma store_new_created:
  assumes "store_new plat B amb flt w fb fn ct h = (out, w1)" "status_of out = Some 201"
  shows "\<exists>m. out = reply 201 (PDict m) \<and> map_of m (lit ''hash'') = Some (PStr h)
           \<and> map_of m (lit ''size'') = Some (PInt (int (length fb)))"
  using assms
  by (auto simp: store_new_def Let_def lit_def split: prod.splits sum.splits)

lemma upload_created:
  assumes "map_of ev (lit ''body'') \<noteq> None" "map_of ev (lit ''headers'') = Some (PDict hdrs)"
    and "decode_body plat ev = Inr bs"
    and "upload_file_lambda_handler plat B amb flt w (PDict ev) = (out, w')"
    and "status_of out = Some 201"
  shows "\<exists>m. out = reply 201 (PDict m)
           \<and> map_of m (lit ''hash'') = Some (PStr (sha256_hexdigest plat bs))
           \<and> map_of m (lit ''size'') = Some (PInt (int (length bs)))"
proof -
  obtain r w1 where cd: "check_duplicate flt w (sha256_hexdigest plat bs) = (r, w1)"
    by (cases "check_duplicate flt w (sha256_hexdigest plat bs)")
  from upload_accepted [OF assms(1-3) cd assms(4)] assms(5)
  obtain fn ct where
    "store_new plat B amb flt w1 bs fn ct (sha256_hexdigest plat bs) = (out, w')"
    by (auto dest: duplicate_found_frame)
  from store_new_created [OF this assms(5)] show ?thesis .
qed

text \<open>
  C6: two accepted uploads whose payloads decode to the same bytes look up the same
  hash, the digest of these bytes, whatever their headers (name, content type), the
  state of the stores, the store failures, the bucket and the values drawn for the
  identifiers and the time; and a record either of them creates carries that hash.
\<close>

theorem fingerprint_from_bytes_alone:
  assumes "map_of ev1 (lit ''body'') \<noteq> None" "map_of ev1 (lit ''headers'') = Some (PDict hdrs1)"
    and "map_of ev2 (lit ''body'') \<noteq> None" "map_of ev2 (lit ''headers'') = Some (PDict hdrs2)"
    and "decode_body plat ev1 = Inr bs" "decode_body plat ev2 = Inr bs"
    and "upload_file_lambda_handler plat B1 amb1 flt1 w1 (PDict ev1) = (out1, w1')"
    and "upload_file_lambda_handler plat B2 amb2 flt2 w2 (PDict ev2) = (out2, w2')"
  shows "content_hash_used w1 w1' = Some (PStr (sha256_hexdigest plat bs))
       \<and> content_hash_used w2 w2' = Some (PStr (sha256_hexdigest plat bs))
       \<and> (status_of out1 = Some 201 \<longrightarrow>
            (\<exists>m. out1 = reply 201 (PDict m)
               \<and> map_of m (lit ''hash'') = Some (PStr (sha256_hexdigest plat bs))))
       \<and> (status_of out2 = Some 201 \<longrightarrow>
            (\<exists>m. out2 = reply 201 (PDict m)
               \<and> map_of m (lit ''hash'') = Some (PStr (sha256_hexdigest plat bs))))"
proof -
  from upload_first_call [OF assms(1,2,5,7)] have
    a: "content_hash_used w1 w1' = Some (PStr (sha256_hexdigest plat bs))"
    by (auto simp: content_hash_used_def new_calls_def)
  from upload_first_call [OF assms(3,4,6,8)] have
    b: "content_hash_used w2 w2' = Some (PStr (sha256_hexdigest plat bs))"
    by (auto simp: content_hash_used_def new_calls_def)
  from upload_created [OF assms(1,2,5,7)] have
    c: "status_of out1 = Some 201 \<longrightarrow>
            (\<exists>m. out1 = reply 201 (PDict m)
               \<and> map_of m (lit ''hash'') = Some (PStr (sha256_hexdigest plat bs)))"
    by blast
  from upload_created [OF assms(3,4,6,8)] have
    d: "status_of out2 = Some 201 \<longrightarrow>
            (\<exists>m. out2 = reply 201 (PDict m)
               \<and> map_of m (lit ''hash'') = Some (PStr (sha256_hexdigest plat bs)))"
    by blast
  from a b c d show ?thesis by simp
qed

theorem fingerprint_from_bytes_alone_witness:
  "content_hash_used (empty_world ''hash'')
     (snd (upload_file_lambda_handler sample_platform (lit ''bucket'') (sample_ambient ''5'')
        no_faults (empty_world ''hash'')
        (PDict [(lit ''body'', PStr (lit ''hi'')),
                (lit ''headers'', PDict [(lit ''filename'', PStr (lit ''a.txt''))])])))
     = Some (PStr (lit ''6869''))
   \<and> content_hash_used (empty_world ''file_id'')
     (snd (upload_file_lambda_handler sample_platform (lit ''other'') (sample_ambient ''6'')
        (\<lambda>k. k = OpPutObject) (empty_world ''file_id'')
        (PDict [(lit ''body'', PStr (lit ''aGk='')), (lit ''isBase64Encoded'', PBool True),
                (lit ''headers'',
                 PDict [(lit ''filename'', PStr (lit ''b.bin'')),
                        (lit ''content-type'', PStr (lit ''text/plain''))])])))
     = Some (PStr (lit ''6869''))"
proof -
  let ?ev1 = "[(lit ''body'', PStr (lit ''hi'')),
               (lit ''headers'', PDict [(lit ''filename'', PStr (lit ''a.txt''))])]"
  let ?ev2 = "[(lit ''body'', PStr (lit ''aGk='')), (lit ''isBase64Encoded'', PBool True),
               (lit ''headers'',
                PDict [(lit ''filename'', PStr (lit ''b.bin'')),
                       (lit ''content-type'', PStr (lit ''text/plain''))])]"
  let ?run1 = "upload_file_lambda_handler sample_platform (lit ''bucket'') (sample_ambient ''5'')
        no_faults (empty_world ''hash'') (PDict ?ev1)"
  let ?run2 = "upload_file_lambda_handler sample_platform (lit ''other'') (sample_ambient ''6'')
        (\<lambda>k. k = OpPutObject) (empty_world ''file_id'') (PDict ?ev2)"
  have h1: "map_of ?ev1 (lit ''body'') \<noteq> None" by (simp add: lit_def)
  have h2: "map_of ?ev1 (lit ''headers'')
              = Some (PDict [(lit ''filename'', PStr (lit ''a.txt''))])"
    by (simp add: lit_def)
  have h3: "map_of ?ev2 (lit ''body'') \<noteq> None" by (simp add: lit_def)
  have h4: "map_of ?ev2 (lit ''headers'')
              = Some (PDict [(lit ''filename'', PStr (lit ''b.bin'')),
                             (lit ''content-type'', PStr (lit ''text/plain''))])"
    by (simp add: lit_def)
  have h5: "decode_body sample_platform ?ev1 = Inr [104, 105]" by (simp add: eval_simps)
  have h6: "decode_body sample_platform ?ev2 = Inr [104, 105]"
    by (simp add: eval_simps sample_b64decode_def b64_value_def)
  have h7: "?run1 = (fst ?run1, snd ?run1)" by simp
  have h8: "?run2 = (fst ?run2, snd ?run2)" by simp
  have d: "sha256_hexdigest sample_platform [104, 105] = lit ''6869''"
    by (simp add: eval_simps sample_digest_def hex_lower_def)
  show ?thesis
    using fingerprint_from_bytes_alone [OF h1 h2 h3 h4 h5 h6 h7 h8] d by simp
qed

section \<open>Lookup by identifier\<close>

lemma find_none: "(\<forall>r\<in>set xs. \<not> P r) \<Longrightarrow> find P xs = None"
  by (simp add: find_None_iff)





section \<open>Uploads that are not base64-encoded\<close>

text \<open>
  With \<open>isBase64Encoded\<close> false or missing, the payload bytes are the UTF-8 encoding of
  the body string; a record that is created carries their number as \<open>size\<close> and their
  digest as \<open>hash\<close>, and the lookup is made under that digest.
\<close>

lemma decode_body_utf8:
  assumes "map_of ev (lit ''body'') = Some (PStr s)"
    and "\<not> truthy (dict_get ev (lit ''isBase64Encoded'') (PBool False))"
  shows "decode_body plat ev = utf8_encode s"
  using assms by (simp add: decode_body_def dict_get_def Let_def)

lemma upload_utf8_payload:
  assumes "map_of ev (lit ''body'') = Some (PStr s)"
    and "\<not> truthy (dict_get ev (lit ''isBase64Encoded'') (PBool False))"
    and "map_of ev (lit ''headers'') = Some (PDict hdrs)"
    and "utf8_encode s = Inr bs"
    and "upload_file_lambda_handler plat B amb flt w (PDict ev) = (out, w')"
  shows "content_hash_used w w' = Some (PStr (sha256_hexdigest plat bs))
       \<and> (status_of out = Some 201 \<longrightarrow>
            (\<exists>m. out = reply 201 (PDict m)
               \<and> map_of m (lit ''hash'') = Some (PStr (sha256_hexdigest plat bs))
               \<and> map_of m (lit ''size'') = Some (PInt (int (length bs)))))"
proof -
  have body: "map_of ev (lit ''body'') \<noteq> None" using assms(1) by simp
  have dec: "decode_body plat ev = Inr bs"
    using decode_body_utf8 [OF assms(1,2)] assms(4) by simp
  from upload_first_call [OF body assms(3) dec assms(5)] have
    "content_hash_used w w' = Some (PStr (sha256_hexdigest plat bs))"
    by (auto simp: content_hash_used_def new_calls_def)
  moreover from upload_created [OF body assms(3) dec assms(5)] have
    "status_of out = Some 201 \<longrightarrow>
            (\<exists>m. out = reply 201 (PDict m)
               \<and> map_of m (lit ''hash'') = Some (PStr (sha256_hexdigest plat bs))
               \<and> map_of m (lit ''size'') = Some (PInt (int (length bs))))"
    by blast
  ultimately show ?thesis by simp
qed

text \<open>
  C10 does not hold of the code in its last part. The metadata table below is keyed by
  \<open>file_id\<close> and one scan call evaluates one row of it. The same event, with the body
  \<open>hi\<close> and \<open>isBase64Encoded\<close> false, is uploaded twice in a row: the two bodies have
  the same UTF-8 encoding, and the second upload is answered with status 201 like the
  first, because the record of the first lies behind the page of the fallback scan.
  The table ends with two records of the hash \<open>6869\<close>.
\<close>

theorem upload_same_text_twice:
  "status_of (fst (upload_file_lambda_handler sample_platform (lit ''bucket'')
      (sample_ambient ''7'') no_faults
      ((empty_world ''file_id'')
         \<lparr>table_page := 1,
          table_rows := [[(lit ''file_id'', PStr (lit ''id-1'')),
                          (lit ''hash'', PStr (lit ''78''))]]\<rparr>)
      (PDict [(lit ''body'', PStr (lit ''hi'')), (lit ''isBase64Encoded'', PBool False),
              (lit ''headers'', PDict [])]))) = Some 201
   \<and> status_of (fst (upload_file_lambda_handler sample_platform (lit ''bucket'')
      (sample_ambient ''8'') no_faults
      (snd (upload_file_lambda_handler sample_platform (lit ''bucket'')
         (sample_ambient ''7'') no_faults
         ((empty_world ''file_id'')
            \<lparr>table_page := 1,
             table_rows := [[(lit ''file_id'', PStr (lit ''id-1'')),
                             (lit ''hash'', PStr (lit ''78''))]]\<rparr>)
         (PDict [(lit ''body'', PStr (lit ''hi'')), (lit ''isBase64Encoded'', PBool False),
                 (lit ''headers'', PDict [])])))
      (PDict [(lit ''body'', PStr (lit ''hi'')), (lit ''isBase64Encoded'', PBool False),
              (lit ''headers'', PDict [])]))) = Some 201
   \<and> map (\<lambda>r. (map_of r (lit ''file_id''), map_of r (lit ''hash'')))
       (table_rows (snd (upload_file_lambda_handler sample_platform (lit ''bucket'')
          (sample_ambient ''8'') no_faults
          (snd (upload_file_lambda_handler sample_platform (lit ''bucket'')
             (sample_ambient ''7'') no_faults
             ((empty_world ''file_id'')
                \<lparr>table_page := 1,
                 table_rows := [[(lit ''file_id'', PStr (lit ''id-1'')),
                                 (lit ''hash'', PStr (lit ''78''))]]\<rparr>)
             (PDict [(lit ''body'', PStr (lit ''hi'')), (lit ''isBase64Encoded'', PBool False),
                     (lit ''headers'', PDict [])])))
          (PDict [(lit ''body'', PStr (lit ''hi'')), (lit ''isBase64Encoded'', PBool False),
                  (lit ''headers'', PDict [])]))))
     = [(Some (PStr (lit ''id-1'')), Some (PStr (lit ''78''))),
        (Some (PStr (lit ''uuid-id-7'')), Some (PStr (lit ''6869''))),
        (Some (PStr (lit ''uuid-id-8'')), Some (PStr (lit ''6869'')))]"
  by (simp add: upload_eval eval_simps status_of_def)


end
